theory Spec2Isabelle
  imports Main "HOL-Library.Sublist"
begin

section \<open>JavaScript string primitives used by the scripts\<close>

text \<open>
  Strings are lists of 8-bit code units. The scripts look for ASCII punctuation, ASCII
  words and white space, and they lower-case names; code units above 255 are outside
  the model. Of the white-space class of \<^verbatim>\<open>trim\<close> and \<^verbatim>\<open>\s\<close> and of the letters that
  \<^verbatim>\<open>toLowerCase\<close> changes, the members below 256 are kept.
\<close>

definition is_space :: "char \<Rightarrow> bool" where
  "is_space c \<longleftrightarrow>
     c = CHR '' '' \<or> c = CHR 0x09 \<or> c = CHR 0x0A \<or> c = CHR 0x0B \<or> c = CHR 0x0C
     \<or> c = CHR 0x0D \<or> c = CHR 0xA0"

text \<open>\<^verbatim>\<open>s.trim()\<close>\<close>

definition trim :: "string \<Rightarrow> string" where
  "trim s = rev (dropWhile is_space (rev (dropWhile is_space s)))"

text \<open>\<^verbatim>\<open>s.split('\n')\<close>: never empty, \<^verbatim>\<open>"".split('\n')\<close> is \<^verbatim>\<open>[""]\<close>.\<close>

fun split_on :: "char \<Rightarrow> string \<Rightarrow> string list" where
  "split_on d [] = [[]]"
| "split_on d (c # cs) =
     (if c = d then [] # split_on d cs
      else (case split_on d cs of t # ts \<Rightarrow> (c # t) # ts | [] \<Rightarrow> [[c]]))"

definition split_lines :: "string \<Rightarrow> string list" where
  "split_lines s = split_on (CHR 0x0A) s"

text \<open>
  \<^verbatim>\<open>s.split(/\s{2,}/)\<close>: a separator is a maximal run of at least two white-space
  code units, found from the left; the pieces between separators are returned, the
  empty ones included.
\<close>

function split_ws2 :: "string \<Rightarrow> string list" where
  "split_ws2 [] = [[]]"
| "split_ws2 (c # cs) =
     (if is_space c \<and> (case cs of [] \<Rightarrow> False | d # _ \<Rightarrow> is_space d)
      then [] # split_ws2 (dropWhile is_space cs)
      else (case split_ws2 cs of t # ts \<Rightarrow> (c # t) # ts | [] \<Rightarrow> [[c]]))"
  by pat_completeness auto
termination
  by (relation "measure length") (auto simp: length_dropWhile_le less_Suc_eq_le)

text \<open>\<^verbatim>\<open>s.includes(p)\<close>, \<^verbatim>\<open>s.startsWith(p)\<close>, \<^verbatim>\<open>s.endsWith(p)\<close>\<close>

definition str_includes :: "string \<Rightarrow> string \<Rightarrow> bool" where
  "str_includes s p = sublist p s"

definition startsWith :: "string \<Rightarrow> string \<Rightarrow> bool" where
  "startsWith s p = prefix p s"

definition endsWith :: "string \<Rightarrow> string \<Rightarrow> bool" where
  "endsWith s p = suffix p s"

text \<open>
  \<^verbatim>\<open>s.toLowerCase()\<close>: among the code units below 256 the upper-case letters are
  \<^verbatim>\<open>A\<close> to \<^verbatim>\<open>Z\<close> (0x41 to 0x5A) and the Latin-1 letters 0xC0 to 0xDE without the
  multiplication sign 0xD7; the lower-case form of each is 0x20 above it. Every other
  code unit is left as it is.
\<close>

definition lower_char :: "char \<Rightarrow> char" where
  "lower_char c =
     (let n = of_char c :: int
      in if (0x41 \<le> n \<and> n \<le> 0x5A) \<or> (0xC0 \<le> n \<and> n \<le> 0xDE \<and> n \<noteq> 0xD7)
         then char_of (n + 0x20) else c)"

definition toLowerCase :: "string \<Rightarrow> string" where
  "toLowerCase s = map lower_char s"

text \<open>The quote characters of the console messages.\<close>

definition dq :: string where
  "dq = [CHR 0x22]"

definition sq :: string where
  "sq = [CHR 0x27]"

text \<open>\<^verbatim>\<open>String(n)\<close> for a non-negative integer, and for any integer.\<close>

definition digit_char :: "nat \<Rightarrow> char" where
  "digit_char d = char_of (48 + d)"

fun show_nat :: "nat \<Rightarrow> string" where
  "show_nat n = (if n < 10 then [digit_char n] else show_nat (n div 10) @ [digit_char (n mod 10)])"

declare show_nat.simps [simp del]

definition show_int :: "int \<Rightarrow> string" where
  "show_int i = (if i < 0 then CHR ''-'' # show_nat (nat (- i)) else show_nat (nat i))"

section \<open>The known-name set and the suffix search of the Renamer\<close>

text \<open>
  A \<^verbatim>\<open>Set<string>\<close> is a duplicate-free list in insertion order: \<^verbatim>\<open>has\<close> is
  membership, \<^verbatim>\<open>add\<close> appends a name that is not yet there.
\<close>

definition set_has :: "string list \<Rightarrow> string \<Rightarrow> bool" where
  "set_has xs x \<longleftrightarrow> x \<in> set xs"

definition set_add :: "string list \<Rightarrow> string \<Rightarrow> string list" where
  "set_add xs x = (if x \<in> set xs then xs else xs @ [x])"

definition suffixed :: "string \<Rightarrow> string \<Rightarrow> nat \<Rightarrow> string" where
  "suffixed finalNewBaseName correctExtension counter =
     finalNewBaseName @ ''('' @ show_nat counter @ '').'' @ correctExtension"

text \<open>
  The loop of \<^verbatim>\<open>processDirectory\<close>:
  \<^verbatim>\<open>while (existingTargetFiles.has(newFileName)) {
    newFileName = `${finalNewBaseName}(${counter}).${correctExtension}`; counter++; }\<close>
  The state is the pair of \<^verbatim>\<open>newFileName\<close> and \<^verbatim>\<open>counter\<close>; the result is the
  state in which the loop condition is false.
\<close>

definition digit_val :: "char \<Rightarrow> nat" where
  "digit_val c = of_char c - 48"

lemma digit_val_digit_char: "d < 10 \<Longrightarrow> digit_val (digit_char d) = d"
  by (simp add: digit_val_def digit_char_def)

lemma read_show_nat:
  "foldl (\<lambda>a c. 10 * a + digit_val c) 0 (show_nat n) = n"
proof (induction n rule: show_nat.induct)
  case (1 n)
  show ?case
  proof (cases "n < 10")
    case True
    then show ?thesis by (simp add: show_nat.simps [of n] digit_val_digit_char)
  next
    case False
    then have "foldl (\<lambda>a c. 10 * a + digit_val c) 0 (show_nat (n div 10)) = n div 10"
      using "1.IH" by simp
    with False show ?thesis
      by (simp add: show_nat.simps [of n] digit_val_digit_char)
  qed
qed

lemma show_nat_inj: "show_nat m = show_nat n \<Longrightarrow> m = n"
  by (metis read_show_nat)

lemma suffixed_inj: "suffixed b e m = suffixed b e n \<Longrightarrow> m = n"
proof -
  assume "suffixed b e m = suffixed b e n"
  then have "show_nat m @ ('').'' @ e) = show_nat n @ ('').'' @ e)"
    by (simp add: suffixed_def)
  then have "show_nat m = show_nat n"
    by (simp only: same_append_eq append_same_eq)
  then show ?thesis by (rule show_nat_inj)
qed

lemma finite_taken_counters: "finite {k. suffixed b e k \<in> set xs}"
proof -
  have "inj (suffixed b e)" by (rule injI) (rule suffixed_inj)
  then have "finite (suffixed b e -` set xs)" by (simp add: finite_vimageI)
  then show ?thesis by (simp add: vimage_def)
qed

definition taken_from :: "string list \<Rightarrow> string \<Rightarrow> string \<Rightarrow> nat \<Rightarrow> nat set" where
  "taken_from xs b e c = {k. c \<le> k \<and> suffixed b e k \<in> set xs}"

lemma finite_taken_from: "finite (taken_from xs b e c)"
  by (rule finite_subset [OF _ finite_taken_counters [of b e xs]]) (auto simp: taken_from_def)

lemma taken_from_step:
  "card (taken_from xs b e (Suc c)) + (if suffixed b e c \<in> set xs then 1 else 0)
     = card (taken_from xs b e c)"
proof -
  have split: "taken_from xs b e c
      = taken_from xs b e (Suc c) \<union> (if suffixed b e c \<in> set xs then {c} else {})"
    by (auto simp: taken_from_def Suc_le_eq order_le_less split: if_splits)
  have notin: "c \<notin> taken_from xs b e (Suc c)" by (simp add: taken_from_def)
  have "card (taken_from xs b e c)
      = card (taken_from xs b e (Suc c) \<union> (if suffixed b e c \<in> set xs then {c} else {}))"
    using split by simp
  also have "\<dots> = card (taken_from xs b e (Suc c)) + (if suffixed b e c \<in> set xs then 1 else 0)"
    by (simp add: finite_taken_from notin)
  finally show ?thesis by simp
qed

function suffix_search :: "string list \<Rightarrow> string \<Rightarrow> string \<Rightarrow> string \<Rightarrow> nat \<Rightarrow> string \<times> nat" where
  "suffix_search existingTargetFiles finalNewBaseName correctExtension newFileName counter =
     (if set_has existingTargetFiles newFileName
      then suffix_search existingTargetFiles finalNewBaseName correctExtension
             (suffixed finalNewBaseName correctExtension counter) (counter + 1)
      else (newFileName, counter))"
  by pat_completeness auto
termination
proof (relation "measure (\<lambda>(xs, b, e, n, c).
          (if n \<in> set xs then 1 else 0) + card (taken_from xs b e c))", goal_cases)
  case 1
  show ?case by simp
next
  case (2 xs b e n c)
  then show ?case
    using taken_from_step [of xs b e c] by (simp add: set_has_def split: if_splits)
qed

declare suffix_search.simps [simp del]


section \<open>Parsing a directory listing\<close>

text \<open>
  The filter of \<^verbatim>\<open>moveRemoteContents\<close>, \<^verbatim>\<open>processDirectory\<close> and \<^verbatim>\<open>reorganizeOnSmb\<close>:
  \<^verbatim>\<open>const trimmed = line.trim(); return trimmed && !trimmed.includes("blocks of size");\<close>
\<close>

definition keep_line :: "string \<Rightarrow> bool" where
  "keep_line line \<longleftrightarrow>
     (let trimmed = trim line in trimmed \<noteq> [] \<and> \<not> str_includes trimmed ''blocks of size'')"

text \<open>
  The filter of \<^verbatim>\<open>mergeDirectoryContents\<close>:
  \<^verbatim>\<open>return trimmed && !trimmed.includes("blocks of size") && !trimmed.startsWith(".");\<close>
\<close>

definition keep_line_merge :: "string \<Rightarrow> bool" where
  "keep_line_merge line \<longleftrightarrow>
     (let trimmed = trim line
      in trimmed \<noteq> [] \<and> \<not> str_includes trimmed ''blocks of size'' \<and> \<not> startsWith trimmed ''.'')"

text \<open>\<^verbatim>\<open>line.trim().split(/\s{2,}/)[0]\<close> and \<^verbatim>\<open>line.includes(" D ")\<close>\<close>

definition entryName_of :: "string \<Rightarrow> string" where
  "entryName_of line = (case split_ws2 (trim line) of t # _ \<Rightarrow> t | [] \<Rightarrow> [])"

definition isDirectory_of :: "string \<Rightarrow> bool" where
  "isDirectory_of line = str_includes line '' D ''"

text \<open>
  The entries \<^verbatim>\<open>mergeDirectoryContents\<close> works on, as (name, directory flag) in listing
  order, and the names \<^verbatim>\<open>moveRemoteContents\<close> works on (it skips \<^verbatim>\<open>.\<close> and \<^verbatim>\<open>..\<close>
  inside its loop and computes no directory flag).
\<close>

definition merge_entries :: "string \<Rightarrow> (string \<times> bool) list" where
  "merge_entries dirResult =
     map (\<lambda>line. (entryName_of line, isDirectory_of line))
       (filter keep_line_merge (split_lines dirResult))"

definition move_entries :: "string \<Rightarrow> string list" where
  "move_entries dirResult =
     filter (\<lambda>entryName. \<not> (entryName = ''.'' \<or> entryName = ''..''))
       (map entryName_of (filter keep_line (split_lines dirResult)))"

section \<open>Paths (Node's posix \<^verbatim>\<open>path\<close> module)\<close>

fun join_with :: "string \<Rightarrow> string list \<Rightarrow> string" where
  "join_with sep [] = []"
| "join_with sep [x] = x"
| "join_with sep (x # y # ys) = x @ sep @ join_with sep (y # ys)"

text \<open>
  \<^verbatim>\<open>normalizeString\<close>: empty and \<^verbatim>\<open>.\<close> segments are dropped, \<^verbatim>\<open>..\<close> removes the
  segment before it unless that is \<^verbatim>\<open>..\<close> itself or missing; the accumulator holds the
  segments kept so far, last first.
\<close>

fun norm_segs :: "bool \<Rightarrow> string list \<Rightarrow> string list \<Rightarrow> string list" where
  "norm_segs allowAboveRoot acc [] = rev acc"
| "norm_segs allowAboveRoot acc (s # ss) =
     (if s = [] \<or> s = ''.'' then norm_segs allowAboveRoot acc ss
      else if s = ''..'' then
        (case acc of
           a # as \<Rightarrow>
             (if a \<noteq> ''..'' then norm_segs allowAboveRoot as ss
              else if allowAboveRoot then norm_segs allowAboveRoot (''..'' # acc) ss
              else norm_segs allowAboveRoot acc ss)
         | [] \<Rightarrow>
             (if allowAboveRoot then norm_segs allowAboveRoot [''..''] ss
              else norm_segs allowAboveRoot [] ss))
      else norm_segs allowAboveRoot (s # acc) ss)"

definition normalize :: "string \<Rightarrow> string" where
  "normalize path =
     (if path = [] then ''.''
      else
        let isAbsolute = (hd path = CHR ''/'');
            trailingSeparator = (last path = CHR ''/'');
            body = join_with ''/'' (norm_segs (\<not> isAbsolute) [] (split_on (CHR ''/'') path))
        in if body = [] then (if isAbsolute then ''/'' else if trailingSeparator then ''./'' else ''.'')
           else (if isAbsolute then ''/'' else []) @ body @ (if trailingSeparator then ''/'' else []))"

text \<open>\<^verbatim>\<open>path.join(...args)\<close>\<close>

definition path_join :: "string list \<Rightarrow> string" where
  "path_join args =
     (let joined = join_with ''/'' (filter (\<lambda>a. a \<noteq> []) args)
      in if joined = [] then ''.'' else normalize joined)"

text \<open>\<^verbatim>\<open>.replace(/\\/g, "/")\<close>\<close>

definition slashes :: "string \<Rightarrow> string" where
  "slashes s = map (\<lambda>c. if c = CHR 0x5C then CHR ''/'' else c) s"

text \<open>
  \<^verbatim>\<open>path.extname(p)\<close>: from the last dot of the last path component to its end; empty
  when that component has no dot, when its only dot is its first character, or when it
  is \<^verbatim>\<open>..\<close>.
\<close>

definition last_component :: "string \<Rightarrow> string" where
  "last_component p =
     rev (takeWhile (\<lambda>c. c \<noteq> CHR ''/'') (dropWhile (\<lambda>c. c = CHR ''/'') (rev p)))"

definition extname :: "string \<Rightarrow> string" where
  "extname p =
     (let comp = last_component p;
          after = rev (takeWhile (\<lambda>c. c \<noteq> CHR ''.'') (rev comp))
      in if CHR ''.'' \<notin> set comp then []
         else if length after + 1 = length comp then []
         else if comp = ''..'' then []
         else CHR ''.'' # after)"

section \<open>Dates\<close>

text \<open>
  A \<^verbatim>\<open>Date\<close> holds a time value in milliseconds or is invalid (\<open>None\<close>, the time value
  NaN). Its local-time getters belong to the runtime: the decomposition of a time value
  into local calendar fields is a parameter \<open>clock\<close>. A number is an integer or NaN
  (\<open>None\<close>).
\<close>

record cal =
  c_year :: int
  c_month :: int
  c_date :: int
  c_hours :: int
  c_minutes :: int
  c_seconds :: int

type_synonym jsdate = "int option"
type_synonym clock = "int \<Rightarrow> cal"

text \<open>\<^verbatim>\<open>parseInt(s, 10)\<close>: leading white space, an optional sign, then the longest run of
  decimal digits; NaN when there is no digit.\<close>

definition is_digit :: "char \<Rightarrow> bool" where
  "is_digit c \<longleftrightarrow> c \<in> set ''0123456789''"

definition digits_value :: "string \<Rightarrow> int" where
  "digits_value ds = foldl (\<lambda>a c. 10 * a + int (digit_val c)) 0 ds"

definition parseInt10 :: "string \<Rightarrow> int option" where
  "parseInt10 s =
     (let t = dropWhile is_space s;
          negative = (case t of c # _ \<Rightarrow> c = CHR ''-'' | [] \<Rightarrow> False);
          u = (case t of c # cs \<Rightarrow> if c = CHR ''-'' \<or> c = CHR ''+'' then cs else t | [] \<Rightarrow> t);
          z = takeWhile is_digit u
      in if z = [] then None
         else Some (if negative then - digits_value z else digits_value z))"

text \<open>\<^verbatim>\<open>new Date(ms)\<close>: a time value beyond 8.64e15 ms in magnitude gives an invalid date.\<close>

definition new_Date :: "int option \<Rightarrow> jsdate" where
  "new_Date v =
     (case v of None \<Rightarrow> None
      | Some ms \<Rightarrow> if \<bar>ms\<bar> \<le> 8640000000000000 then Some ms else None)"

text \<open>\<^verbatim>\<open>String(x)\<close> of a number and \<^verbatim>\<open>.padStart(2, "0")\<close>\<close>

definition num_str :: "int option \<Rightarrow> string" where
  "num_str v = (case v of None \<Rightarrow> ''NaN'' | Some i \<Rightarrow> show_int i)"

definition padStart2 :: "string \<Rightarrow> string" where
  "padStart2 s = replicate (2 - length s) (CHR ''0'') @ s"

definition getFullYear :: "clock \<Rightarrow> jsdate \<Rightarrow> int option" where
  "getFullYear clk d = map_option (\<lambda>t. c_year (clk t)) d"
definition getMonth :: "clock \<Rightarrow> jsdate \<Rightarrow> int option" where
  "getMonth clk d = map_option (\<lambda>t. c_month (clk t)) d"
definition getDate :: "clock \<Rightarrow> jsdate \<Rightarrow> int option" where
  "getDate clk d = map_option (\<lambda>t. c_date (clk t)) d"
definition getHours :: "clock \<Rightarrow> jsdate \<Rightarrow> int option" where
  "getHours clk d = map_option (\<lambda>t. c_hours (clk t)) d"
definition getMinutes :: "clock \<Rightarrow> jsdate \<Rightarrow> int option" where
  "getMinutes clk d = map_option (\<lambda>t. c_minutes (clk t)) d"
definition getSeconds :: "clock \<Rightarrow> jsdate \<Rightarrow> int option" where
  "getSeconds clk d = map_option (\<lambda>t. c_seconds (clk t)) d"

definition formatDate :: "clock \<Rightarrow> jsdate \<Rightarrow> string" where
  "formatDate clk date =
     (let YYYY = getFullYear clk date;
          MM = padStart2 (num_str (map_option (\<lambda>m. m + 1) (getMonth clk date)));
          DD = padStart2 (num_str (getDate clk date));
          hh = padStart2 (num_str (getHours clk date));
          mm = padStart2 (num_str (getMinutes clk date));
          ss = padStart2 (num_str (getSeconds clk date))
      in num_str YYYY @ ''-'' @ MM @ ''-'' @ DD @ ''_'' @ hh @ ''-'' @ mm @ ''-'' @ ss)"

definition formatExifDate :: "clock \<Rightarrow> jsdate \<Rightarrow> string" where
  "formatExifDate clk date =
     (let YYYY = getFullYear clk date;
          MM = padStart2 (num_str (map_option (\<lambda>m. m + 1) (getMonth clk date)));
          DD = padStart2 (num_str (getDate clk date));
          hh = padStart2 (num_str (getHours clk date));
          mm = padStart2 (num_str (getMinutes clk date));
          ss = padStart2 (num_str (getSeconds clk date))
      in num_str YYYY @ '':'' @ MM @ '':'' @ DD @ '' '' @ hh @ '':'' @ mm @ '':'' @ ss)"

text \<open>
  The runtime's decomposition for a host whose local time is UTC+0 all year: days since
  the epoch are turned into a proleptic Gregorian date (years counted in 400-year eras
  that start on 1 March), the rest of the day into hours, minutes and seconds.
\<close>

definition utc_clock :: clock where
  "utc_clock t =
     (let day = t div 86400000;
          msInDay = t mod 86400000;
          z = day + 719468;
          era = z div 146097;
          doe = z mod 146097;
          yoe = (doe - doe div 1460 + doe div 36524 - doe div 146096) div 365;
          doy = doe - (365 * yoe + yoe div 4 - yoe div 100);
          mp = (5 * doy + 2) div 153;
          d = doy - (153 * mp + 2) div 5 + 1;
          m = (if mp < 10 then mp + 3 else mp - 9);
          y = yoe + era * 400 + (if m \<le> 2 then 1 else 0)
      in \<lparr> c_year = y, c_month = m - 1, c_date = d,
           c_hours = msInDay div 3600000,
           c_minutes = (msInDay div 60000) mod 60,
           c_seconds = (msInDay div 1000) mod 60 \<rparr>)"


section \<open>The collaborators: remote share, local files, metadata tool\<close>

text \<open>
  Every awaited call goes to a collaborator that either answers or throws. The
  collaborators are a parameter: each operation maps the state of the outside world to
  an answer and a new state, with \<open>False\<close> or \<open>None\<close> for a thrown error. What a script
  did is read off its journal, the calls in order with their outcome and the console
  lines in between.

  \<^item> \<open>smb_rename s t\<close> is \<^verbatim>\<open>smbClient.execute("rename", `"${s}" "${t}"`)\<close>;
  \<^item> \<open>fs_readJson p\<close> is \<^verbatim>\<open>JSON.parse((await fs.readFile(p)).toString())\<close>;
  \<^item> \<open>exif_read p\<close> is \<^verbatim>\<open>(await exiftool.read(p)).FileTypeExtension\<close>, \<open>Some None\<close>
    when the tool reports no such tag;
  \<^item> \<open>exif_write p d\<close> is \<^verbatim>\<open>exiftool.write(p, { AllDates: d }, ["-m"])\<close>.
\<close>

text \<open>
  A parsed sidecar, as far as the script reads it: \<^verbatim>\<open>null\<close>, or a value with the
  (possibly missing) strings \<^verbatim>\<open>photoTakenTime.timestamp\<close> and \<^verbatim>\<open>creationTime.timestamp\<close>.
\<close>

datatype sidecar = JNull | JMeta "string option" "string option"

datatype op =
    SmbDir string
  | SmbMkdir string
  | SmbRename string string
  | SmbGetFile string string
  | SmbSendFile string string
  | FsReadJson string
  | FsUnlink string
  | ExifRead string
  | ExifWrite string string

datatype event = Did op bool | Log string

record 'w collaborators =
  smb_dir :: "string \<Rightarrow> 'w \<Rightarrow> string option \<times> 'w"
  smb_mkdir :: "string \<Rightarrow> 'w \<Rightarrow> bool \<times> 'w"
  smb_rename :: "string \<Rightarrow> string \<Rightarrow> 'w \<Rightarrow> bool \<times> 'w"
  smb_getFile :: "string \<Rightarrow> string \<Rightarrow> 'w \<Rightarrow> bool \<times> 'w"
  smb_sendFile :: "string \<Rightarrow> string \<Rightarrow> 'w \<Rightarrow> bool \<times> 'w"
  fs_readJson :: "string \<Rightarrow> 'w \<Rightarrow> sidecar option \<times> 'w"
  fs_unlink :: "string \<Rightarrow> 'w \<Rightarrow> bool \<times> 'w"
  exif_read :: "string \<Rightarrow> 'w \<Rightarrow> string option option \<times> 'w"
  exif_write :: "string \<Rightarrow> string \<Rightarrow> 'w \<Rightarrow> bool \<times> 'w"

record 'w run =
  world :: 'w
  journal :: "event list"

definition log :: "string \<Rightarrow> 'w run \<Rightarrow> 'w run" where
  "log msg r = r\<lparr>journal := journal r @ [Log msg]\<rparr>"

definition noted :: "'w run \<Rightarrow> op \<Rightarrow> bool \<Rightarrow> 'w \<Rightarrow> 'w run" where
  "noted r a ok w = \<lparr>world = w, journal = journal r @ [Did a ok]\<rparr>"

definition smbDir :: "'w collaborators \<Rightarrow> string \<Rightarrow> 'w run \<Rightarrow> string option \<times> 'w run" where
  "smbDir E p r = (case smb_dir E p (world r) of (res, w) \<Rightarrow> (res, noted r (SmbDir p) (res \<noteq> None) w))"

definition smbMkdir :: "'w collaborators \<Rightarrow> string \<Rightarrow> 'w run \<Rightarrow> bool \<times> 'w run" where
  "smbMkdir E p r = (case smb_mkdir E p (world r) of (ok, w) \<Rightarrow> (ok, noted r (SmbMkdir p) ok w))"

definition smbRename :: "'w collaborators \<Rightarrow> string \<Rightarrow> string \<Rightarrow> 'w run \<Rightarrow> bool \<times> 'w run" where
  "smbRename E s t r =
     (case smb_rename E s t (world r) of (ok, w) \<Rightarrow> (ok, noted r (SmbRename s t) ok w))"

definition smbGetFile :: "'w collaborators \<Rightarrow> string \<Rightarrow> string \<Rightarrow> 'w run \<Rightarrow> bool \<times> 'w run" where
  "smbGetFile E s t r =
     (case smb_getFile E s t (world r) of (ok, w) \<Rightarrow> (ok, noted r (SmbGetFile s t) ok w))"

definition smbSendFile :: "'w collaborators \<Rightarrow> string \<Rightarrow> string \<Rightarrow> 'w run \<Rightarrow> bool \<times> 'w run" where
  "smbSendFile E s t r =
     (case smb_sendFile E s t (world r) of (ok, w) \<Rightarrow> (ok, noted r (SmbSendFile s t) ok w))"

definition fsReadJson :: "'w collaborators \<Rightarrow> string \<Rightarrow> 'w run \<Rightarrow> sidecar option \<times> 'w run" where
  "fsReadJson E p r =
     (case fs_readJson E p (world r) of (res, w) \<Rightarrow> (res, noted r (FsReadJson p) (res \<noteq> None) w))"

definition fsUnlink :: "'w collaborators \<Rightarrow> string \<Rightarrow> 'w run \<Rightarrow> bool \<times> 'w run" where
  "fsUnlink E p r = (case fs_unlink E p (world r) of (ok, w) \<Rightarrow> (ok, noted r (FsUnlink p) ok w))"

definition exifRead :: "'w collaborators \<Rightarrow> string \<Rightarrow> 'w run \<Rightarrow> string option option \<times> 'w run" where
  "exifRead E p r =
     (case exif_read E p (world r) of (res, w) \<Rightarrow> (res, noted r (ExifRead p) (res \<noteq> None) w))"

definition exifWrite :: "'w collaborators \<Rightarrow> string \<Rightarrow> string \<Rightarrow> 'w run \<Rightarrow> bool \<times> 'w run" where
  "exifWrite E p d r =
     (case exif_write E p d (world r) of (ok, w) \<Rightarrow> (ok, noted r (ExifWrite p d) ok w))"

text \<open>
  The constants of the scripts: the dry-run flag, the names of the server and of the
  share, the remote source root, and from the host \<^verbatim>\<open>os.tmpdir()\<close> and the local-time
  decomposition.
\<close>

record config =
  IS_DRY_RUN :: bool
  SERVER_NAME :: string
  SHARE_NAME :: string
  REMOTE_SOURCE_PATH :: string
  tmpdir :: string
  local_clock :: clock

text \<open>
  How a call of a recursive script ended: it returned, an error escaped it, or the
  recursion budget of the model ran out before it finished.
\<close>

datatype outcome = Returned | Thrown | Exhausted


section \<open>The Mover: \<^verbatim>\<open>mergeDirectoryContents\<close> and \<^verbatim>\<open>moveRemoteContents\<close>\<close>

text \<open>
  The loop of \<^verbatim>\<open>mergeDirectoryContents\<close> over the filtered lines; \<open>rec\<close> is the recursive
  call for a subdirectory. The function catches every error itself, so a call either
  returns or runs out of budget.
\<close>

fun merge_loop ::
  "(string \<Rightarrow> string \<Rightarrow> 'w run \<Rightarrow> outcome \<times> 'w run) \<Rightarrow> 'w collaborators \<Rightarrow> config
     \<Rightarrow> string \<Rightarrow> string \<Rightarrow> string list \<Rightarrow> 'w run \<Rightarrow> outcome \<times> 'w run" where
  "merge_loop rec E cfg sourceDir targetDir [] r = (Returned, r)"
| "merge_loop rec E cfg sourceDir targetDir (line # rest) r =
     (let entryName = entryName_of line;
          isDirectory = isDirectory_of line;
          sourcePath = slashes (path_join [sourceDir, entryName]);
          targetPath = slashes (path_join [targetDir, entryName])
      in if isDirectory then
           (case rec sourcePath targetPath
                   (log (''- Merging directory: '' @ sourcePath @ '' -> '' @ targetPath) r) of
              (Returned, r') \<Rightarrow> merge_loop rec E cfg sourceDir targetDir rest r'
            | (oc, r') \<Rightarrow> (oc, r'))
         else if IS_DRY_RUN cfg then
           merge_loop rec E cfg sourceDir targetDir rest
             (log (''  (Dry Run) Would move file: '' @ sourcePath @ '' -> '' @ targetPath) r)
         else
           (case smbRename E sourcePath targetPath r of
              (True, r') \<Rightarrow>
                merge_loop rec E cfg sourceDir targetDir rest
                  (log (''  - Moved file: '' @ entryName) r')
            | (False, r') \<Rightarrow>
                merge_loop rec E cfg sourceDir targetDir rest
                  (log (''  - Could not move '' @ sq @ entryName @ sq
                        @ '', it may already exist in the target. Skipping.'') r')))"

definition mergeDirectoryContents_body ::
  "(string \<Rightarrow> string \<Rightarrow> 'w run \<Rightarrow> outcome \<times> 'w run) \<Rightarrow> 'w collaborators \<Rightarrow> config
     \<Rightarrow> string \<Rightarrow> string \<Rightarrow> 'w run \<Rightarrow> outcome \<times> 'w run" where
  "mergeDirectoryContents_body rec E cfg sourceDir targetDir r =
     (let listPath = slashes (path_join [sourceDir, ''*''])
      in case smbDir E listPath r of
           (None, r1) \<Rightarrow> (Returned, log (''Error processing directory '' @ sourceDir @ '':'') r1)
         | (Some dirResult, r1) \<Rightarrow>
             (let allEntries = filter keep_line_merge (split_lines dirResult);
                  r2 = snd (smbMkdir E targetDir r1)
              in merge_loop rec E cfg sourceDir targetDir allEntries r2))"

primrec mergeDirectoryContents ::
  "nat \<Rightarrow> 'w collaborators \<Rightarrow> config \<Rightarrow> string \<Rightarrow> string \<Rightarrow> 'w run \<Rightarrow> outcome \<times> 'w run" where
  "mergeDirectoryContents 0 E cfg sourceDir targetDir r = (Exhausted, r)"
| "mergeDirectoryContents (Suc budget) E cfg sourceDir targetDir r =
     mergeDirectoryContents_body (mergeDirectoryContents budget E cfg) E cfg sourceDir targetDir r"

text \<open>The earlier Mover, \<^verbatim>\<open>moveRemoteContents\<close>: one level, no recursion.\<close>

fun move_loop ::
  "'w collaborators \<Rightarrow> config \<Rightarrow> string \<Rightarrow> string \<Rightarrow> string list \<Rightarrow> 'w run \<Rightarrow> 'w run" where
  "move_loop E cfg sourceDir targetDir [] r = r"
| "move_loop E cfg sourceDir targetDir (line # rest) r =
     (let entryName = entryName_of line
      in if entryName = ''.'' \<or> entryName = ''..'' then move_loop E cfg sourceDir targetDir rest r
         else
           (let sourcePath = slashes (path_join [sourceDir, entryName]);
                targetPath = slashes (path_join [targetDir, entryName]);
                r1 = log (''Moving: '' @ sourcePath @ '' -> '' @ targetPath) r
            in if IS_DRY_RUN cfg then
                 move_loop E cfg sourceDir targetDir rest
                   (log (''  (Dry Run) Would move: '' @ sourcePath @ '' -> '' @ targetPath) r1)
               else
                 (case smbRename E sourcePath targetPath r1 of
                    (True, r2) \<Rightarrow> move_loop E cfg sourceDir targetDir rest r2
                  | (False, r2) \<Rightarrow>
                      move_loop E cfg sourceDir targetDir rest
                        (log (''Error moving '' @ sq @ entryName @ sq @ '':'') r2))))"

definition moveRemoteContents ::
  "'w collaborators \<Rightarrow> config \<Rightarrow> string \<Rightarrow> string \<Rightarrow> 'w run \<Rightarrow> 'w run" where
  "moveRemoteContents E cfg sourceDir targetDir r =
     (let listPath = slashes (path_join [sourceDir, ''*''])
      in case smbDir E listPath r of
           (None, r1) \<Rightarrow> log (''Error reading directory '' @ sourceDir @ '':'') r1
         | (Some dirResult, r1) \<Rightarrow>
             move_loop E cfg sourceDir targetDir (filter keep_line (split_lines dirResult)) r1)"

section \<open>The Batch Driver: \<^verbatim>\<open>reorganizeOnSmb\<close>\<close>

text \<open>\<^verbatim>\<open>line.split(" D ")[0]\<close>: the part of the line before the first occurrence.\<close>

fun before_first :: "string \<Rightarrow> string \<Rightarrow> string" where
  "before_first p [] = []"
| "before_first p (c # cs) = (if prefix p (c # cs) then [] else c # before_first p cs)"

definition takeoutFolders_of :: "string \<Rightarrow> string list" where
  "takeoutFolders_of allEntriesString =
     filter (\<lambda>name. startsWith name ''Takeout'')
       (map (\<lambda>line. trim (before_first '' D '' line))
          (filter isDirectory_of (filter keep_line (split_lines allEntriesString))))"

definition REMOTE_TARGET_PATH :: "config \<Rightarrow> string" where
  "REMOTE_TARGET_PATH cfg = slashes (path_join [REMOTE_SOURCE_PATH cfg, ''merged''])"

text \<open>
  The loop over the Takeout folders; \<open>mover\<close> is \<^verbatim>\<open>mergeDirectoryContents\<close>. (The
  earlier script has the same loop with \<^verbatim>\<open>moveRemoteContents\<close> in its place and prints the
  line \<^verbatim>\<open>Processing:\<close> without the line feed in front.)
\<close>

fun folders_loop ::
  "(string \<Rightarrow> string \<Rightarrow> 'w run \<Rightarrow> outcome \<times> 'w run) \<Rightarrow> 'w collaborators \<Rightarrow> config
     \<Rightarrow> string list \<Rightarrow> 'w run \<Rightarrow> outcome \<times> 'w run" where
  "folders_loop mover E cfg [] r = (Returned, r)"
| "folders_loop mover E cfg (folderName # rest) r =
     (let takeoutPath = path_join [REMOTE_SOURCE_PATH cfg, folderName];
          googlePhotosPath = slashes (path_join [takeoutPath, ''Google Photos''])
      in case smbDir E googlePhotosPath r of
           (None, r1) \<Rightarrow>
             folders_loop mover E cfg rest
               (log (''No '' @ dq @ ''Google Photos'' @ dq @ '' folder in '' @ takeoutPath @ '', skipping.'') r1)
         | (Some _, r1) \<Rightarrow>
             (case mover googlePhotosPath (REMOTE_TARGET_PATH cfg)
                     (log (CHR 0x0A # ''Processing: '' @ googlePhotosPath) r1) of
                (Returned, r2) \<Rightarrow> folders_loop mover E cfg rest r2
              | (Thrown, r2) \<Rightarrow>
                  folders_loop mover E cfg rest
                    (log (''No '' @ dq @ ''Google Photos'' @ dq @ '' folder in '' @ takeoutPath @ '', skipping.'') r2)
              | (Exhausted, r2) \<Rightarrow> (Exhausted, r2)))"

definition reorganizeOnSmb ::
  "(string \<Rightarrow> string \<Rightarrow> 'w run \<Rightarrow> outcome \<times> 'w run) \<Rightarrow> 'w collaborators \<Rightarrow> config
     \<Rightarrow> 'w run \<Rightarrow> outcome \<times> 'w run" where
  "reorganizeOnSmb mover E cfg r =
     (let r1 = log ''Starting reorganization process on SMB share...'' r;
          r2 = (if IS_DRY_RUN cfg
                then log ''*** Running in DRY RUN mode. No files will be changed. ***'' r1 else r1);
          r3 = log (''Source path: //'' @ SERVER_NAME cfg @ ''/'' @ SHARE_NAME cfg @ ''/''
                    @ REMOTE_SOURCE_PATH cfg) r2;
          r4 = log (''Target path: //'' @ SERVER_NAME cfg @ ''/'' @ SHARE_NAME cfg @ ''/''
                    @ REMOTE_TARGET_PATH cfg) r3;
          r5 = (case smbMkdir E (REMOTE_TARGET_PATH cfg) r4 of
                  (True, r') \<Rightarrow> log (''Created target directory: '' @ REMOTE_TARGET_PATH cfg) r'
                | (False, r') \<Rightarrow>
                    log (''Target directory '' @ REMOTE_TARGET_PATH cfg @ '' may already exist.'') r');
          listPath = slashes (path_join [REMOTE_SOURCE_PATH cfg, ''*''])
      in case smbDir E listPath r5 of
           (None, r6) \<Rightarrow>
             (Returned, log (CHR 0x0A # ''An error occurred during the reorganization:'') r6)
         | (Some allEntriesString, r6) \<Rightarrow>
             (let takeoutFolders = takeoutFolders_of allEntriesString
              in if takeoutFolders = [] then
                   (Returned,
                    log (''No '' @ dq @ ''Takeout'' @ dq @ '' folders found in '' @ REMOTE_SOURCE_PATH cfg @ ''.'') r6)
                 else
                   (case folders_loop mover E cfg takeoutFolders
                           (log (''Found '' @ show_nat (length takeoutFolders)
                                 @ '' '' @ dq @ ''Takeout'' @ dq @ '' folder(s).'') r6) of
                      (Returned, r7) \<Rightarrow>
                        (Returned,
                         log (CHR 0x0A # ''Reorganization process completed successfully!'') r7)
                    | (oc, r7) \<Rightarrow> (oc, r7))))"


section \<open>The Renamer: \<^verbatim>\<open>processDirectory\<close>\<close>

text \<open>\<^verbatim>\<open>new Set(array)\<close>\<close>

definition new_Set :: "string list \<Rightarrow> string list" where
  "new_Set xs = foldl set_add [] xs"

text \<open>\<^verbatim>\<open>name.replace(/-edited/i, "")\<close>: the first match only, letters compared without case.\<close>

fun remove_edited :: "string \<Rightarrow> string" where
  "remove_edited [] = []"
| "remove_edited (c # cs) =
     (if prefix ''-edited'' (toLowerCase (c # cs)) then drop 7 (c # cs)
      else c # remove_edited cs)"

text \<open>
  \<^verbatim>\<open>for (const name of fileNames)
    if (name.toLowerCase().includes("-edited")) originalsToSkip.add(name.replace(/-edited/i, ""));\<close>
\<close>

definition originalsToSkip_of :: "string list \<Rightarrow> string list" where
  "originalsToSkip_of fileNames =
     foldl (\<lambda>originalsToSkip name.
              if str_includes (toLowerCase name) ''-edited''
              then set_add originalsToSkip (remove_edited name) else originalsToSkip)
       [] fileNames"

text \<open>
  \<^verbatim>\<open>metadata.photoTakenTime?.timestamp || metadata.creationTime?.timestamp\<close>: a missing
  or empty string is falsy.
\<close>

definition timestamp_of :: "string option \<Rightarrow> string option \<Rightarrow> string option" where
  "timestamp_of photoTaken creation =
     (case photoTaken of Some s \<Rightarrow> if s \<noteq> [] then Some s else creation | None \<Rightarrow> creation)"

text \<open>\<^verbatim>\<open>new Date(parseInt(timestamp, 10) * 1000)\<close>\<close>

definition takenDate_of :: "string \<Rightarrow> jsdate" where
  "takenDate_of timestamp = new_Date (map_option (\<lambda>n. n * 1000) (parseInt10 timestamp))"

text \<open>
  \<^verbatim>\<open>(fileTags.FileTypeExtension || path.extname(entryName).substring(1)).toLowerCase()\<close>
\<close>

definition correctExtension_of :: "string option \<Rightarrow> string \<Rightarrow> string" where
  "correctExtension_of fileTypeExtension entryName =
     toLowerCase
       (case fileTypeExtension of
          Some e \<Rightarrow> if e \<noteq> [] then e else drop 1 (extname entryName)
        | None \<Rightarrow> drop 1 (extname entryName))"

text \<open>
  \<^verbatim>\<open>const newBaseName = formatDate(takenDate);
  const isEdited = entryName.toLowerCase().includes("-edited");
  const finalNewBaseName = `${newBaseName}${isEdited ? "-edited" : ""}`;\<close>
\<close>

definition finalNewBaseName_of :: "clock \<Rightarrow> jsdate \<Rightarrow> string \<Rightarrow> string" where
  "finalNewBaseName_of clk takenDate entryName =
     formatDate clk takenDate
       @ (if str_includes (toLowerCase entryName) ''-edited'' then ''-edited'' else [])"

text \<open>
  The name the file is placed under: the first candidate
  \<^verbatim>\<open>`${finalNewBaseName}.${correctExtension}`\<close>, then the suffix search with
  \<^verbatim>\<open>counter = 1\<close>.
\<close>

definition newFileName_of :: "string list \<Rightarrow> string \<Rightarrow> string \<Rightarrow> string" where
  "newFileName_of existingTargetFiles finalNewBaseName correctExtension =
     fst (suffix_search existingTargetFiles finalNewBaseName correctExtension
            (finalNewBaseName @ ''.'' @ correctExtension) 1)"

text \<open>How the \<^verbatim>\<open>try\<close> block of one file ended: normally (also by \<^verbatim>\<open>continue\<close>) or by an error.\<close>

datatype completion = Normal | Raised

text \<open>
  The part of the \<^verbatim>\<open>try\<close> block after a sidecar name was found: fetch and parse the
  sidecar, derive the date, the extension and the name, then tag and upload.
\<close>

definition rename_with_sidecar ::
  "'w collaborators \<Rightarrow> config \<Rightarrow> string \<Rightarrow> string \<Rightarrow> string \<Rightarrow> string \<Rightarrow> string
     \<Rightarrow> string list \<Rightarrow> 'w run \<Rightarrow> completion \<times> string list \<times> 'w run" where
  "rename_with_sidecar E cfg sourceDir targetDir entryName tempFilePath jsonFileName
       existingTargetFiles r =
     (let tempJsonPath = path_join [tmpdir cfg, jsonFileName]
      in case smbGetFile E (slashes (path_join [sourceDir, jsonFileName])) tempJsonPath r of
           (False, r1) \<Rightarrow> (Raised, existingTargetFiles, r1)
         | (True, r1) \<Rightarrow>
        (case fsReadJson E tempJsonPath r1 of
           (None, r2) \<Rightarrow> (Raised, existingTargetFiles, r2)
         | (Some metadata, r2) \<Rightarrow>
        (case fsUnlink E tempJsonPath r2 of
           (False, r3) \<Rightarrow> (Raised, existingTargetFiles, r3)
         | (True, r3) \<Rightarrow>
        (case metadata of
           JNull \<Rightarrow> (Raised, existingTargetFiles, r3)
         | JMeta photoTaken creation \<Rightarrow>
        (case timestamp_of photoTaken creation of
           None \<Rightarrow>
             (Normal, existingTargetFiles,
              log (''- No timestamp for '' @ entryName @ '', skipping.'') r3)
         | Some timestamp \<Rightarrow>
        (if timestamp = [] then
           (Normal, existingTargetFiles,
            log (''- No timestamp for '' @ entryName @ '', skipping.'') r3)
         else
        (let takenDate = takenDate_of timestamp
         in case exifRead E tempFilePath r3 of
           (None, r4) \<Rightarrow> (Raised, existingTargetFiles, r4)
         | (Some fileTypeExtension, r4) \<Rightarrow>
        (let correctExtension = correctExtension_of fileTypeExtension entryName;
             finalNewBaseName = finalNewBaseName_of (local_clock cfg) takenDate entryName;
             newFileName = newFileName_of existingTargetFiles finalNewBaseName correctExtension
         in if set_has existingTargetFiles newFileName then
              (Normal, existingTargetFiles,
               log (''- Skipping already processed file: '' @ newFileName) r4)
            else
        (let newTargetPath = slashes (path_join [targetDir, newFileName]);
             r5 = log (''- Processing: '' @ entryName @ '' -> '' @ newFileName) r4
         in if IS_DRY_RUN cfg then
              (Normal, existingTargetFiles,
               log (''  (Dry Run) Would update EXIF and upload to '' @ newTargetPath) r5)
            else
        (case exifWrite E tempFilePath (formatExifDate (local_clock cfg) takenDate) r5 of
           (False, r6) \<Rightarrow> (Raised, existingTargetFiles, r6)
         | (True, r6) \<Rightarrow>
        (case smbSendFile E tempFilePath newTargetPath r6 of
           (False, r7) \<Rightarrow> (Raised, existingTargetFiles, r7)
         | (True, r7) \<Rightarrow>
             (Normal, set_add existingTargetFiles newFileName,
              log (''  Processed and moved to '' @ newTargetPath) r7))))))))))))"

text \<open>The \<^verbatim>\<open>try\<close> block of one file.\<close>

definition try_block ::
  "'w collaborators \<Rightarrow> config \<Rightarrow> string \<Rightarrow> string \<Rightarrow> string list \<Rightarrow> string \<Rightarrow> string
     \<Rightarrow> string \<Rightarrow> string list \<Rightarrow> 'w run \<Rightarrow> completion \<times> string list \<times> 'w run" where
  "try_block E cfg sourceDir targetDir fileNames entryName sourcePath tempFilePath
       existingTargetFiles r =
     (case smbGetFile E sourcePath tempFilePath r of
        (False, r1) \<Rightarrow> (Raised, existingTargetFiles, r1)
      | (True, r1) \<Rightarrow>
          (case List.find (\<lambda>f. startsWith f entryName \<and> endsWith f ''.json'') fileNames of
             None \<Rightarrow>
               (let r2 = log (''- No metadata for: '' @ entryName @ '', copying as-is.'') r1
                in if set_has existingTargetFiles entryName then
                     (Normal, existingTargetFiles,
                      log (''- Skipping already existing file: '' @ entryName) r2)
                   else
                     (let targetPath = slashes (path_join [targetDir, entryName])
                      in if IS_DRY_RUN cfg then
                           (Normal, existingTargetFiles,
                            log (''  (Dry Run) Would copy '' @ sourcePath @ '' to '' @ targetPath) r2)
                         else
                           (case smbSendFile E tempFilePath targetPath r2 of
                              (False, r3) \<Rightarrow> (Raised, existingTargetFiles, r3)
                            | (True, r3) \<Rightarrow>
                                (Normal, existingTargetFiles,
                                 log (''  Copied to '' @ targetPath) r3))))
           | Some jsonFileName \<Rightarrow>
               rename_with_sidecar E cfg sourceDir targetDir entryName tempFilePath jsonFileName
                 existingTargetFiles r1))"

text \<open>
  One file with its \<^verbatim>\<open>catch\<close> and \<^verbatim>\<open>finally\<close>: an error of the block is logged, and
  the staged copy is unlinked whatever happened, an error of the unlink being ignored.
\<close>

definition process_file ::
  "'w collaborators \<Rightarrow> config \<Rightarrow> string \<Rightarrow> string \<Rightarrow> string list \<Rightarrow> string \<Rightarrow> string
     \<Rightarrow> string list \<Rightarrow> 'w run \<Rightarrow> string list \<times> 'w run" where
  "process_file E cfg sourceDir targetDir fileNames entryName sourcePath existingTargetFiles r =
     (let tempFilePath = path_join [tmpdir cfg, entryName]
      in case try_block E cfg sourceDir targetDir fileNames entryName sourcePath tempFilePath
                existingTargetFiles r of
           (c, existingTargetFiles', r1) \<Rightarrow>
             (let r2 = (case c of
                          Raised \<Rightarrow> log (''- Error processing '' @ entryName @ '':'') r1
                        | Normal \<Rightarrow> r1)
              in (existingTargetFiles', snd (fsUnlink E tempFilePath r2))))"

text \<open>
  The loop over the listed lines. \<open>rec\<close> is the recursive call for a subdirectory; it
  is awaited outside every \<^verbatim>\<open>try\<close>, so an error that escapes it ends the loop.
\<close>

fun rename_loop ::
  "(string \<Rightarrow> string \<Rightarrow> 'w run \<Rightarrow> outcome \<times> 'w run) \<Rightarrow> 'w collaborators \<Rightarrow> config
     \<Rightarrow> string \<Rightarrow> string \<Rightarrow> string list \<Rightarrow> string list \<Rightarrow> string list \<Rightarrow> string list
     \<Rightarrow> 'w run \<Rightarrow> outcome \<times> string list \<times> 'w run" where
  "rename_loop rec E cfg sourceDir targetDir fileNames originalsToSkip [] existingTargetFiles r =
     (Returned, existingTargetFiles, r)"
| "rename_loop rec E cfg sourceDir targetDir fileNames originalsToSkip (line # rest)
       existingTargetFiles r =
     (let isDirectory = isDirectory_of line;
          entryName = entryName_of line;
          sourcePath = slashes (path_join [sourceDir, entryName])
      in if isDirectory then
           (if entryName = ''.'' \<or> entryName = ''..'' then
              rename_loop rec E cfg sourceDir targetDir fileNames originalsToSkip rest
                existingTargetFiles r
            else
              (case rec sourcePath (slashes (path_join [targetDir, entryName])) r of
                 (Returned, r') \<Rightarrow>
                   rename_loop rec E cfg sourceDir targetDir fileNames originalsToSkip rest
                     existingTargetFiles r'
               | (oc, r') \<Rightarrow> (oc, existingTargetFiles, r')))
         else if endsWith (toLowerCase entryName) ''.json'' \<or> set_has originalsToSkip entryName then
           rename_loop rec E cfg sourceDir targetDir fileNames originalsToSkip rest
             existingTargetFiles
             (if set_has originalsToSkip entryName
              then log (''- Skipping original with edited version: '' @ entryName) r
              else log (''- Skipping: '' @ entryName) r)
         else
           (case process_file E cfg sourceDir targetDir fileNames entryName sourcePath
                   existingTargetFiles r of
              (existingTargetFiles', r') \<Rightarrow>
                rename_loop rec E cfg sourceDir targetDir fileNames originalsToSkip rest
                  existingTargetFiles' r'))"

text \<open>
  The names already in the target: the listing of the target directory, or the empty
  set (with an attempt to create the directory, unless in dry-run) when it cannot be
  listed.
\<close>

definition list_target :: "'w collaborators \<Rightarrow> config \<Rightarrow> string \<Rightarrow> 'w run \<Rightarrow> string list \<times> 'w run" where
  "list_target E cfg targetDir r =
     (case smbDir E (slashes (path_join [targetDir, ''*''])) r of
        (Some targetDirResult, r1) \<Rightarrow>
          (new_Set (map entryName_of (filter keep_line (split_lines targetDirResult))), r1)
      | (None, r1) \<Rightarrow>
          (let r2 = log (''- Target directory '' @ targetDir
                         @ '' is new or empty. Ensuring it exists.'') r1
           in ([], if \<not> IS_DRY_RUN cfg then snd (smbMkdir E targetDir r2) else r2)))"

definition processDirectory_body ::
  "(string \<Rightarrow> string \<Rightarrow> 'w run \<Rightarrow> outcome \<times> 'w run) \<Rightarrow> 'w collaborators \<Rightarrow> config
     \<Rightarrow> string \<Rightarrow> string \<Rightarrow> 'w run \<Rightarrow> outcome \<times> 'w run" where
  "processDirectory_body rec E cfg sourceDir targetDir r =
     (let r0 = log (''Writing to target: '' @ targetDir) (log (CHR 0x0A # ''Processing source: '' @ sourceDir) r)
      in case list_target E cfg targetDir r0 of
           (existingTargetFiles, r1) \<Rightarrow>
             (case smbDir E (slashes (path_join [sourceDir, ''*''])) r1 of
                (None, r2) \<Rightarrow> (Thrown, r2)
              | (Some dirResult, r2) \<Rightarrow>
                  (let allEntries = filter keep_line (split_lines dirResult);
                       fileNames = new_Set (map entryName_of allEntries);
                       originalsToSkip = originalsToSkip_of fileNames
                   in case rename_loop rec E cfg sourceDir targetDir fileNames originalsToSkip
                             allEntries existingTargetFiles r2 of
                        (oc, _, r3) \<Rightarrow> (oc, r3))))"

primrec processDirectory ::
  "nat \<Rightarrow> 'w collaborators \<Rightarrow> config \<Rightarrow> string \<Rightarrow> string \<Rightarrow> 'w run \<Rightarrow> outcome \<times> 'w run" where
  "processDirectory 0 E cfg sourceDir targetDir r = (Exhausted, r)"
| "processDirectory (Suc budget) E cfg sourceDir targetDir r =
     processDirectory_body (processDirectory budget E cfg) E cfg sourceDir targetDir r"


section \<open>The suffix search ends on a free name\<close>

lemma suffix_search_free:
  "\<not> set_has X (fst (suffix_search X b e n c))"
proof (induction X b e n c rule: suffix_search.induct)
  case (1 X b e n c)
  show ?case
  proof (cases "set_has X n")
    case True
    then show ?thesis using "1.IH" by (simp add: suffix_search.simps [of X b e n c])
  next
    case False
    then show ?thesis by (simp add: suffix_search.simps [of X b e n c])
  qed
qed

text \<open>
  Claim C10. The suffix-search loop of the Renamer terminates for every known-name set
  (\<open>suffix_search\<close> is a total function: the set is finite and the candidates are
  pairwise distinct), and the name it ends on is not in the set. The check
  \<^verbatim>\<open>if (existingTargetFiles.has(newFileName))\<close> right after the loop is therefore always
  false, and its skip branch never runs.
\<close>

theorem post_loop_check_unreachable:
  "\<not> set_has existingTargetFiles
       (newFileName_of existingTargetFiles finalNewBaseName correctExtension)"
  unfolding newFileName_of_def by (rule suffix_search_free)

theorem post_loop_check_unreachable_witness:
  "\<not> set_has [''2021-01-01_00-00-00.jpg'', ''2021-01-01_00-00-00(1).jpg'']
       (newFileName_of [''2021-01-01_00-00-00.jpg'', ''2021-01-01_00-00-00(1).jpg'']
          ''2021-01-01_00-00-00'' ''jpg'')
   \<and> newFileName_of [''2021-01-01_00-00-00.jpg'', ''2021-01-01_00-00-00(1).jpg'']
          ''2021-01-01_00-00-00'' ''jpg'' = ''2021-01-01_00-00-00(2).jpg''"
proof -
  have "newFileName_of [''2021-01-01_00-00-00.jpg'', ''2021-01-01_00-00-00(1).jpg'']
          ''2021-01-01_00-00-00'' ''jpg'' = ''2021-01-01_00-00-00(2).jpg''"
    by code_simp
  then show ?thesis
    using post_loop_check_unreachable
      [of "[''2021-01-01_00-00-00.jpg'', ''2021-01-01_00-00-00(1).jpg'']"
          "''2021-01-01_00-00-00''" "''jpg''"]
    by simp
qed

section \<open>Fixed-width renderings of the calendar fields\<close>


definition four_digits :: "int \<Rightarrow> string" where
  "four_digits n = [digit_char (nat n div 1000), digit_char (nat n div 100 mod 10),
                    digit_char (nat n div 10 mod 10), digit_char (nat n mod 10)]"


lemma show_nat_1: "n < 10 \<Longrightarrow> show_nat n = [digit_char n]"
  by (simp add: show_nat.simps [of n])

lemma show_nat_2:
  "10 \<le> n \<Longrightarrow> n < 100 \<Longrightarrow> show_nat n = [digit_char (n div 10), digit_char (n mod 10)]"
  by (simp add: show_nat.simps [of n] show_nat_1)

lemma show_nat_3:
  "100 \<le> n \<Longrightarrow> n < 1000 \<Longrightarrow>
   show_nat n = [digit_char (n div 100), digit_char (n div 10 mod 10), digit_char (n mod 10)]"
  by (simp add: show_nat.simps [of n] show_nat_2 div_mult2_eq [symmetric] less_mult_imp_div_less)

lemma show_nat_4:
  "1000 \<le> n \<Longrightarrow> n < 10000 \<Longrightarrow>
   show_nat n = [digit_char (n div 1000), digit_char (n div 100 mod 10),
                 digit_char (n div 10 mod 10), digit_char (n mod 10)]"
  by (simp add: show_nat.simps [of n] show_nat_3 div_mult2_eq [symmetric] less_mult_imp_div_less)



lemma year_four: "1000 \<le> y \<Longrightarrow> y \<le> 9999 \<Longrightarrow> num_str (Some y) = four_digits y"
  by (simp add: num_str_def show_int_def four_digits_def show_nat_4)


section \<open>The shape of the final name\<close>



section \<open>The listing parser against its description\<close>

text \<open>
  The parser as the specification words it: drop the blank lines and the lines that carry
  the block-count summary; of each remaining line take the first token of the trimmed
  line, tokens being separated by runs of two or more white-space characters, and the
  directory flag, set when the line contains \<^verbatim>\<open> D \<close>; drop the entries \<^verbatim>\<open>.\<close> and
  \<^verbatim>\<open>..\<close>.
\<close>

fun spec_first_token :: "string \<Rightarrow> string" where
  "spec_first_token [] = []"
| "spec_first_token [c] = [c]"
| "spec_first_token (c # d # cs) =
     (if is_space c \<and> is_space d then [] else c # spec_first_token (d # cs))"

definition spec_parse :: "string \<Rightarrow> (string \<times> bool) list" where
  "spec_parse raw =
     filter (\<lambda>(name, isDir). name \<noteq> ''.'' \<and> name \<noteq> ''..'')
       (map (\<lambda>line. (spec_first_token (trim line), sublist '' D '' line))
          (filter (\<lambda>line. trim line \<noteq> [] \<and> \<not> sublist ''blocks of size'' (trim line))
             (split_lines raw)))"

lemma split_ws2_first: "\<exists>ts. split_ws2 s = spec_first_token s # ts"
proof (induction s rule: split_ws2.induct)
  case 1
  show ?case by simp
next
  case (2 c cs)
  show ?case
  proof (cases "is_space c \<and> (case cs of [] \<Rightarrow> False | d # _ \<Rightarrow> is_space d)")
    case True
    then obtain d ds where "cs = d # ds" by (cases cs) auto
    with True show ?thesis by simp
  next
    case False
    with "2.IH"(2) obtain ts where ts: "split_ws2 cs = spec_first_token cs # ts" by blast
    show ?thesis
    proof (cases cs)
      case Nil
      then show ?thesis by simp
    next
      case (Cons d ds)
      with False ts show ?thesis by auto
    qed
  qed
qed

lemma entryName_of_first: "entryName_of line = spec_first_token (trim line)"
proof -
  obtain ts where "split_ws2 (trim line) = spec_first_token (trim line) # ts"
    using split_ws2_first by blast
  then show ?thesis by (simp add: entryName_of_def)
qed

lemma trim_prefix: "\<exists>t. dropWhile is_space s = trim s @ t"
proof -
  let ?u = "dropWhile is_space s"
  have "rev (dropWhile is_space (rev ?u)) @ rev (takeWhile is_space (rev ?u))
      = rev (takeWhile is_space (rev ?u) @ dropWhile is_space (rev ?u))"
    by (simp only: rev_append)
  also have "\<dots> = ?u" by simp
  finally have "?u = trim s @ rev (takeWhile is_space (rev ?u))"
    by (simp only: trim_def)
  then show ?thesis by blast
qed

lemma trim_hd: "trim s \<noteq> [] \<Longrightarrow> \<not> is_space (hd (trim s))"
proof -
  assume ne: "trim s \<noteq> []"
  obtain t where t: "dropWhile is_space s = trim s @ t" using trim_prefix by blast
  with ne have "dropWhile is_space s \<noteq> []" by auto
  then have "\<not> is_space (hd (dropWhile is_space s))" by (rule hd_dropWhile)
  with t ne show ?thesis by simp
qed

lemma first_token_hd:
  "s \<noteq> [] \<Longrightarrow> \<not> is_space (hd s) \<Longrightarrow> spec_first_token s \<noteq> [] \<and> hd (spec_first_token s) = hd s"
  by (cases s rule: spec_first_token.cases) auto

lemma name_hd:
  "trim line \<noteq> [] \<Longrightarrow> entryName_of line \<noteq> [] \<and> hd (entryName_of line) = hd (trim line)"
  using first_token_hd [OF _ trim_hd] by (simp add: entryName_of_first)

lemma starts_dot: "s \<noteq> [] \<Longrightarrow> startsWith s ''.'' \<longleftrightarrow> hd s = CHR ''.''"
  by (cases s) (auto simp: startsWith_def)

lemma name_dot:
  "trim line \<noteq> [] \<Longrightarrow> startsWith (entryName_of line) ''.'' \<longleftrightarrow> startsWith (trim line) ''.''"
  using name_hd [of line] by (simp add: starts_dot)

lemma keep_line_merge_iff:
  "keep_line_merge line \<longleftrightarrow> keep_line line \<and> \<not> startsWith (entryName_of line) ''.''"
  using name_dot [of line] by (auto simp: keep_line_merge_def keep_line_def Let_def)

lemma dot_names_start_with_dot:
  "n = ''.'' \<or> n = ''..'' \<Longrightarrow> startsWith n ''.''"
  by (auto simp: startsWith_def)

lemma spec_parse_by_lines:
  "spec_parse raw =
     map (\<lambda>line. (entryName_of line, isDirectory_of line))
       (filter (\<lambda>line. keep_line line \<and> entryName_of line \<noteq> ''.'' \<and> entryName_of line \<noteq> ''..'')
          (split_lines raw))"
proof -
  have g: "(\<lambda>line. (spec_first_token (trim line), sublist '' D '' line))
      = (\<lambda>line. (entryName_of line, isDirectory_of line))"
    by (simp add: entryName_of_first isDirectory_of_def str_includes_def)
  have k: "(\<lambda>line. trim line \<noteq> [] \<and> \<not> sublist ''blocks of size'' (trim line)) = keep_line"
    by (simp add: keep_line_def str_includes_def Let_def fun_eq_iff)
  have "spec_parse raw =
     filter (\<lambda>(name, isDir). name \<noteq> ''.'' \<and> name \<noteq> ''..'')
       (map (\<lambda>line. (entryName_of line, isDirectory_of line))
          (filter keep_line (split_lines raw)))"
    unfolding spec_parse_def g k ..
  also have "\<dots> = map (\<lambda>line. (entryName_of line, isDirectory_of line))
       (filter (\<lambda>line. entryName_of line \<noteq> ''.'' \<and> entryName_of line \<noteq> ''..'')
          (filter keep_line (split_lines raw)))"
    by (simp only: filter_map o_def case_prod_conv)
  also have "\<dots> = map (\<lambda>line. (entryName_of line, isDirectory_of line))
       (filter (\<lambda>line. keep_line line \<and> entryName_of line \<noteq> ''.'' \<and> entryName_of line \<noteq> ''..'')
          (split_lines raw))"
    by (simp only: filter_filter)
  finally show ?thesis .
qed

lemma merge_entries_refines:
  "merge_entries raw = filter (\<lambda>(name, isDir). \<not> startsWith name ''.'') (spec_parse raw)"
proof -
  have eq: "\<And>line. (keep_line line \<and> entryName_of line \<noteq> ''.'' \<and> entryName_of line \<noteq> ''..'')
                 \<and> \<not> startsWith (entryName_of line) ''.''
             \<longleftrightarrow> keep_line_merge line"
    using dot_names_start_with_dot unfolding keep_line_merge_iff by blast
  have "filter (\<lambda>(name, isDir). \<not> startsWith name ''.'') (spec_parse raw)
      = map (\<lambda>line. (entryName_of line, isDirectory_of line))
          (filter (\<lambda>line. \<not> startsWith (entryName_of line) ''.'')
             (filter (\<lambda>line. keep_line line \<and> entryName_of line \<noteq> ''.'' \<and> entryName_of line \<noteq> ''..'')
                (split_lines raw)))"
    by (simp only: spec_parse_by_lines filter_map o_def case_prod_conv)
  also have "\<dots> = map (\<lambda>line. (entryName_of line, isDirectory_of line))
          (filter keep_line_merge (split_lines raw))"
    by (simp only: filter_filter eq)
  finally show ?thesis by (simp only: merge_entries_def)
qed

lemma move_entries_refines: "move_entries raw = map fst (spec_parse raw)"
proof -
  have "map fst (spec_parse raw)
      = map entryName_of
          (filter (\<lambda>line. keep_line line \<and> entryName_of line \<noteq> ''.'' \<and> entryName_of line \<noteq> ''..'')
             (split_lines raw))"
    by (simp only: spec_parse_by_lines map_map o_def fst_conv)
  also have "\<dots> = map entryName_of
          (filter (\<lambda>line. \<not> (entryName_of line = ''.'' \<or> entryName_of line = ''..''))
             (filter keep_line (split_lines raw)))"
    by (simp only: filter_filter de_Morgan_disj)
  also have "\<dots> = move_entries raw"
    by (simp only: move_entries_def filter_map o_def)
  finally show ?thesis by simp
qed

text \<open>
  Claim C3, as the code has it. For every raw listing, \<^verbatim>\<open>moveRemoteContents\<close> works on
  exactly the names of the parser described above, in order; \<^verbatim>\<open>mergeDirectoryContents\<close>
  works on exactly its entries (name and directory flag) whose name does not begin with a
  dot, so it leaves out every dot-prefixed name and not only \<^verbatim>\<open>.\<close> and \<^verbatim>\<open>..\<close>. In
  both, a line counts as the summary when it contains \<^verbatim>\<open>blocks of size\<close>, wherever it
  stands.
\<close>

theorem listing_parsers_refine_spec:
  "merge_entries raw = filter (\<lambda>(name, isDir). \<not> startsWith name ''.'') (spec_parse raw)
   \<and> move_entries raw = map fst (spec_parse raw)"
  using merge_entries_refines move_entries_refines by (rule conjI)

definition sample_listing :: string where
  "sample_listing = join_with [CHR 0x0A]
     [''  .                                   D        0  Fri Jan  1 00:00:00 2021'',
      ''  ..                                  D        0  Fri Jan  1 00:00:00 2021'',
      ''  Album One                           D        0  Fri Jan  1 00:00:00 2021'',
      ''  .hidden                             A       10  Fri Jan  1 00:00:00 2021'',
      ''  IMG 2.jpg                           A    12345  Fri Jan  1 00:00:00 2021'',
      '''',
      ''                1000000 blocks of size 1024. 500000 blocks available'',
      '''']"

theorem listing_parsers_refine_spec_witness:
  "merge_entries sample_listing = [(''Album One'', True), (''IMG 2.jpg'', False)]
   \<and> move_entries sample_listing = [''Album One'', ''.hidden'', ''IMG 2.jpg'']"
proof -
  have "spec_parse sample_listing
      = [(''Album One'', True), (''.hidden'', False), (''IMG 2.jpg'', False)]"
    by code_simp
  with listing_parsers_refine_spec [of sample_listing] show ?thesis
    by (simp add: startsWith_def)
qed

text \<open>
  Claim C3 as stated fails for \<^verbatim>\<open>mergeDirectoryContents\<close>: the line of a file named
  \<^verbatim>\<open>.hidden\<close> is neither blank nor the summary, and its name is neither \<^verbatim>\<open>.\<close> nor
  \<^verbatim>\<open>..\<close>, so the described parser yields the entry, yet the Mover's entry list is empty.
\<close>

theorem dot_file_line_yields_no_entry:
  "spec_parse ''  .hidden                             A       10  Fri Jan  1 00:00:00 2021''
     = [(''.hidden'', False)]
   \<and> merge_entries ''  .hidden                             A       10  Fri Jan  1 00:00:00 2021''
     = []"
  by code_simp

section \<open>Dot-prefixed entries are invisible to the Mover\<close>

text \<open>
  A listing with the dot-prefixed lines taken out, and collaborators that answer every
  listing request with such a listing and are otherwise unchanged.
\<close>

definition without_dot_lines :: "string \<Rightarrow> string" where
  "without_dot_lines dirResult =
     join_with [CHR 0x0A]
       (filter (\<lambda>line. \<not> startsWith (trim line) ''.'') (split_lines dirResult))"

definition hide_dot_entries :: "'w collaborators \<Rightarrow> 'w collaborators" where
  "hide_dot_entries E =
     E\<lparr>smb_dir := \<lambda>p w. case smb_dir E p w of (res, w') \<Rightarrow> (map_option without_dot_lines res, w')\<rparr>"

lemma split_on_nonempty: "split_on d s \<noteq> []"
  by (induction s) (auto split: list.splits)

lemma split_on_free: "l \<in> set (split_on d s) \<Longrightarrow> d \<notin> set l"
proof (induction s arbitrary: l)
  case Nil
  then show ?case by simp
next
  case (Cons c cs)
  show ?case
  proof (cases "c = d")
    case True
    with Cons show ?thesis by auto
  next
    case False
    obtain t ts where ts: "split_on d cs = t # ts"
      using split_on_nonempty [of d cs] by (cases "split_on d cs") auto
    with False Cons.prems have "l = c # t \<or> l \<in> set ts" by simp
    then show ?thesis
    proof
      assume "l = c # t"
      moreover have "d \<notin> set t" using Cons.IH [of t] ts by simp
      ultimately show ?thesis using False by auto
    next
      assume "l \<in> set ts"
      then show ?thesis using Cons.IH [of l] ts by simp
    qed
  qed
qed

lemma split_on_single: "d \<notin> set l \<Longrightarrow> split_on d l = [l]"
  by (induction l) auto

lemma split_on_join_aux:
  "sep = [d] \<Longrightarrow> ls \<noteq> [] \<Longrightarrow> \<forall>l\<in>set ls. d \<notin> set l
     \<Longrightarrow> split_on d (join_with sep ls) = ls"
proof (induction sep ls rule: join_with.induct)
  case (1 sep)
  then show ?case by simp
next
  case (2 sep x)
  then show ?case by (simp add: split_on_single)
next
  case (3 sep x y ys)
  have rest: "split_on d (join_with sep (y # ys)) = y # ys"
    using 3 by simp
  have "d \<notin> set x" using 3 by simp
  then have "split_on d (x @ d # join_with sep (y # ys))
      = x # split_on d (join_with sep (y # ys))"
    by (induction x) auto
  with rest 3(2) show ?case by simp
qed

lemma split_on_join:
  "ls \<noteq> [] \<Longrightarrow> (\<And>l. l \<in> set ls \<Longrightarrow> d \<notin> set l) \<Longrightarrow> split_on d (join_with [d] ls) = ls"
  by (rule split_on_join_aux) auto

lemma keep_line_merge_not_dot: "keep_line_merge line \<Longrightarrow> \<not> startsWith (trim line) ''.''"
  by (simp add: keep_line_merge_def Let_def)

lemma filter_keep_without_dot:
  "filter keep_line_merge (split_lines (without_dot_lines s)) = filter keep_line_merge (split_lines s)"
proof -
  let ?nd = "\<lambda>line. \<not> startsWith (trim line) ''.''"
  let ?fs = "filter ?nd (split_lines s)"
  have both: "filter keep_line_merge ?fs = filter keep_line_merge (split_lines s)"
    using keep_line_merge_not_dot by (auto simp: filter_filter intro!: filter_cong)
  show ?thesis
  proof (cases "?fs = []")
    case True
    then have "split_lines (without_dot_lines s) = [[]]"
      by (simp add: without_dot_lines_def split_lines_def)
    moreover have "\<not> keep_line_merge []"
      by (simp add: keep_line_merge_def trim_def)
    ultimately have "filter keep_line_merge (split_lines (without_dot_lines s)) = []" by simp
    with both True show ?thesis by simp
  next
    case False
    have "\<And>l. l \<in> set ?fs \<Longrightarrow> CHR 0x0A \<notin> set l"
      using split_on_free [of _ "CHR 0x0A" s] by (simp add: split_lines_def)
    with False have "split_lines (without_dot_lines s) = ?fs"
      unfolding without_dot_lines_def split_lines_def by (intro split_on_join)
    with both show ?thesis by simp
  qed
qed

lemma smbDir_hide:
  "smbDir (hide_dot_entries E) p r =
     (case smbDir E p r of (res, r') \<Rightarrow> (map_option without_dot_lines res, r'))"
  by (simp add: smbDir_def hide_dot_entries_def split: prod.splits)

lemma smbMkdir_hide: "smbMkdir (hide_dot_entries E) = smbMkdir E"
  by (simp add: smbMkdir_def hide_dot_entries_def fun_eq_iff)

lemma smbRename_hide: "smbRename (hide_dot_entries E) = smbRename E"
  by (simp add: smbRename_def hide_dot_entries_def fun_eq_iff)

lemma merge_loop_hide:
  "merge_loop rec (hide_dot_entries E) cfg sourceDir targetDir lines r
     = merge_loop rec E cfg sourceDir targetDir lines r"
  by (induction lines arbitrary: r)
     (simp_all add: smbRename_hide Let_def split: prod.splits outcome.splits bool.splits)

lemma merge_body_hide:
  "mergeDirectoryContents_body rec (hide_dot_entries E) cfg sourceDir targetDir r
     = mergeDirectoryContents_body rec E cfg sourceDir targetDir r"
proof -
  obtain res r1 where d: "smbDir E (slashes (path_join [sourceDir, ''*''])) r = (res, r1)"
    by (cases "smbDir E (slashes (path_join [sourceDir, ''*''])) r") auto
  show ?thesis
  proof (cases res)
    case None
    with d show ?thesis by (simp add: mergeDirectoryContents_body_def smbDir_hide)
  next
    case (Some dirResult)
    with d show ?thesis
      by (simp add: mergeDirectoryContents_body_def smbDir_hide smbMkdir_hide merge_loop_hide
          filter_keep_without_dot)
  qed
qed

lemma merge_hide:
  "mergeDirectoryContents budget (hide_dot_entries E) cfg = mergeDirectoryContents budget E cfg"
proof (induction budget)
  case 0
  show ?case by (simp add: fun_eq_iff)
next
  case (Suc budget)
  show ?case
    unfolding fun_eq_iff mergeDirectoryContents.simps Suc.IH merge_body_hide by simp
qed

text \<open>
  Claim C9. A listing line whose trimmed content starts with a dot is not among the lines
  \<^verbatim>\<open>mergeDirectoryContents\<close> works on, and the whole run of the Mover, at every depth of
  the recursion, is the same (same calls to the collaborators, same console lines, same
  final state) as the run in which no listing contains such a line: an entry whose name
  begins with a dot is never moved and never recursed into.
\<close>

theorem dot_entries_never_touched:
  "(startsWith (trim line) ''.'' \<longrightarrow> \<not> keep_line_merge line)
   \<and> mergeDirectoryContents budget (hide_dot_entries E) cfg sourceDir targetDir r
       = mergeDirectoryContents budget E cfg sourceDir targetDir r"
  using keep_line_merge_not_dot [of line] by (auto simp: merge_hide)

section \<open>Concrete runs\<close>

text \<open>
  Collaborators for concrete runs: the share answers a listing request from a fixed
  table (a path that is not in the table cannot be listed), reading a staged sidecar
  gives the parsed value from a second table, the metadata tool reports the type from a
  third, and every other operation succeeds. A listing is what the share prints: one
  line per entry, a blank line and the block-count summary.
\<close>

definition scripted ::
  "(string \<times> string) list \<Rightarrow> (string \<times> sidecar) list \<Rightarrow> (string \<times> string) list
     \<Rightarrow> unit collaborators" where
  "scripted listings sidecars types =
     \<lparr> smb_dir = (\<lambda>p w. (map_of listings p, w)),
       smb_mkdir = (\<lambda>p w. (True, w)),
       smb_rename = (\<lambda>s t w. (True, w)),
       smb_getFile = (\<lambda>s t w. (True, w)),
       smb_sendFile = (\<lambda>s t w. (True, w)),
       fs_readJson = (\<lambda>p w. (map_of sidecars p, w)),
       fs_unlink = (\<lambda>p w. (True, w)),
       exif_read = (\<lambda>p w. (Some (map_of types p), w)),
       exif_write = (\<lambda>p d w. (True, w)) \<rparr>"

definition listing :: "string list \<Rightarrow> string" where
  "listing entries =
     join_with [CHR 0x0A]
       ([''  .                                   D        0  Fri Jan  1 00:00:00 2021'',
         ''  ..                                  D        0  Fri Jan  1 00:00:00 2021'']
        @ entries
        @ ['''', ''                1000000 blocks of size 1024. 500000 blocks available'', ''''])"

definition host :: "bool \<Rightarrow> config" where
  "host dry = \<lparr> IS_DRY_RUN = dry, SERVER_NAME = ''192.168.1.121'', SHARE_NAME = ''Data'',
                REMOTE_SOURCE_PATH = ''root'', tmpdir = ''/tmp'', local_clock = utc_clock \<rparr>"

definition start :: "unit run" where
  "start = \<lparr> world = (), journal = [] \<rparr>"

definition edited_example :: "unit collaborators" where
  "edited_example =
     scripted
       [(''src/*'', listing
           [''  IMG_0001.jpg                        A    12345  Fri Jan  1 00:00:00 2021'',
            ''  IMG_0001.jpg.json                   A      512  Fri Jan  1 00:00:00 2021'',
            ''  IMG_0001-edited.jpg                 A    23456  Fri Jan  1 00:00:00 2021'']),
        (''tgt/*'', listing [])]
       [(''/tmp/IMG_0001.jpg.json'', JMeta (Some ''1609459200'') None)]
       [(''/tmp/IMG_0001.jpg'', ''jpg''), (''/tmp/IMG_0001-edited.jpg'', ''jpg'')]"

text \<open>
  Claim C1 on the code. The source directory holds \<^verbatim>\<open>IMG_0001.jpg\<close>, its sidecar
  \<^verbatim>\<open>IMG_0001.jpg.json\<close> with \<^verbatim>\<open>photoTakenTime.timestamp = "1609459200"\<close> and
  \<^verbatim>\<open>IMG_0001-edited.jpg\<close>; the target is empty and local time is UTC+0. The original and
  the sidecar are skipped; for the edited file no listed name starts with
  \<^verbatim>\<open>IMG_0001-edited.jpg\<close> and ends in \<^verbatim>\<open>.json\<close>, so it is uploaded under its own name
  and no capture time is written.
\<close>

theorem edited_variant_is_copied_unchanged:
  "processDirectory 1 edited_example (host False) ''src'' ''tgt'' start =
     (Returned,
      \<lparr> world = (),
        journal =
          [Log (CHR 0x0A # ''Processing source: src''),
           Log ''Writing to target: tgt'',
           Did (SmbDir ''tgt/*'') True,
           Did (SmbDir ''src/*'') True,
           Log ''- Skipping original with edited version: IMG_0001.jpg'',
           Log ''- Skipping: IMG_0001.jpg.json'',
           Did (SmbGetFile ''src/IMG_0001-edited.jpg'' ''/tmp/IMG_0001-edited.jpg'') True,
           Log ''- No metadata for: IMG_0001-edited.jpg, copying as-is.'',
           Did (SmbSendFile ''/tmp/IMG_0001-edited.jpg'' ''tgt/IMG_0001-edited.jpg'') True,
           Log ''  Copied to tgt/IMG_0001-edited.jpg'',
           Did (FsUnlink ''/tmp/IMG_0001-edited.jpg'') True] \<rparr>)"
  by code_simp
definition same_second_example :: "unit collaborators" where
  "same_second_example =
     scripted
       [(''src/*'', listing
           [''  2021-01-01_00-00-00.jpg             A    12345  Fri Jan  1 00:00:00 2021'',
            ''  IMG_0002.jpg                        A    23456  Fri Jan  1 00:00:00 2021'',
            ''  IMG_0002.jpg.json                   A      512  Fri Jan  1 00:00:00 2021'']),
        (''tgt/*'', listing [])]
       [(''/tmp/IMG_0002.jpg.json'', JMeta (Some ''1609459200'') None)]
       [(''/tmp/2021-01-01_00-00-00.jpg'', ''jpg''), (''/tmp/IMG_0002.jpg'', ''jpg'')]"

text \<open>
  Claim C4 on the code. The source directory holds \<^verbatim>\<open>2021-01-01_00-00-00.jpg\<close> without a
  sidecar, and \<^verbatim>\<open>IMG_0002.jpg\<close> with a sidecar whose timestamp is \<^verbatim>\<open>"1609459200"\<close>; the
  target is empty. The first file is copied under its own name, which is not added to the
  known names; the second derives the same name, finds it free, and is uploaded to the
  same target path: two files are placed under one final name.
\<close>

theorem unregistered_copy_is_overwritten:
  "processDirectory 1 same_second_example (host False) ''src'' ''tgt'' start =
     (Returned,
      \<lparr> world = (),
        journal =
          [Log (CHR 0x0A # ''Processing source: src''),
           Log ''Writing to target: tgt'',
           Did (SmbDir ''tgt/*'') True,
           Did (SmbDir ''src/*'') True,
           Did (SmbGetFile ''src/2021-01-01_00-00-00.jpg'' ''/tmp/2021-01-01_00-00-00.jpg'') True,
           Log ''- No metadata for: 2021-01-01_00-00-00.jpg, copying as-is.'',
           Did (SmbSendFile ''/tmp/2021-01-01_00-00-00.jpg'' ''tgt/2021-01-01_00-00-00.jpg'') True,
           Log ''  Copied to tgt/2021-01-01_00-00-00.jpg'',
           Did (FsUnlink ''/tmp/2021-01-01_00-00-00.jpg'') True,
           Did (SmbGetFile ''src/IMG_0002.jpg'' ''/tmp/IMG_0002.jpg'') True,
           Did (SmbGetFile ''src/IMG_0002.jpg.json'' ''/tmp/IMG_0002.jpg.json'') True,
           Did (FsReadJson ''/tmp/IMG_0002.jpg.json'') True,
           Did (FsUnlink ''/tmp/IMG_0002.jpg.json'') True,
           Did (ExifRead ''/tmp/IMG_0002.jpg'') True,
           Log ''- Processing: IMG_0002.jpg -> 2021-01-01_00-00-00.jpg'',
           Did (ExifWrite ''/tmp/IMG_0002.jpg'' ''2021:01:01 00:00:00'') True,
           Did (SmbSendFile ''/tmp/IMG_0002.jpg'' ''tgt/2021-01-01_00-00-00.jpg'') True,
           Log ''  Processed and moved to tgt/2021-01-01_00-00-00.jpg'',
           Did (FsUnlink ''/tmp/IMG_0002.jpg'') True,
           Log ''- Skipping: IMG_0002.jpg.json''] \<rparr>)"
  by code_simp
definition takeout_example :: "unit collaborators" where
  "takeout_example =
     scripted
       [(''root/*'', listing
           [''  Takeout 1                           D        0  Fri Jan  1 00:00:00 2021'']),
        (''root/Takeout 1/Google Photos'', listing []),
        (''root/Takeout 1/Google Photos/*'', listing
           [''  Album                               D        0  Fri Jan  1 00:00:00 2021'',
            ''  IMG_0001.jpg                        A    12345  Fri Jan  1 00:00:00 2021'']),
        (''root/Takeout 1/Google Photos/Album/*'', listing
           [''  IMG_0002.jpg                        A    23456  Fri Jan  1 00:00:00 2021''])]
       [] []"

text \<open>
  Claim C2 on the code. With the dry-run flag set, on a share with one Takeout folder that
  holds a file and an album with a file, the Batch Driver and the Mover only log the
  moves they would make, but they still ask the share to create the consolidated target
  directory (the Driver once, the Mover again) and the album's directory under it.
\<close>

theorem dry_run_still_creates_directories:
  "reorganizeOnSmb (mergeDirectoryContents 2 takeout_example (host True)) takeout_example
       (host True) start =
     (Returned,
      \<lparr> world = (),
        journal =
          [Log ''Starting reorganization process on SMB share...'',
           Log ''*** Running in DRY RUN mode. No files will be changed. ***'',
           Log ''Source path: //192.168.1.121/Data/root'',
           Log ''Target path: //192.168.1.121/Data/root/merged'',
           Did (SmbMkdir ''root/merged'') True,
           Log ''Created target directory: root/merged'',
           Did (SmbDir ''root/*'') True,
           Log (''Found 1 '' @ dq @ ''Takeout'' @ dq @ '' folder(s).''),
           Did (SmbDir ''root/Takeout 1/Google Photos'') True,
           Log (CHR 0x0A # ''Processing: root/Takeout 1/Google Photos''),
           Did (SmbDir ''root/Takeout 1/Google Photos/*'') True,
           Did (SmbMkdir ''root/merged'') True,
           Log ''- Merging directory: root/Takeout 1/Google Photos/Album -> root/merged/Album'',
           Did (SmbDir ''root/Takeout 1/Google Photos/Album/*'') True,
           Did (SmbMkdir ''root/merged/Album'') True,
           Log ''  (Dry Run) Would move file: root/Takeout 1/Google Photos/Album/IMG_0002.jpg -> root/merged/Album/IMG_0002.jpg'',
           Log ''  (Dry Run) Would move file: root/Takeout 1/Google Photos/IMG_0001.jpg -> root/merged/IMG_0001.jpg'',
           Log (CHR 0x0A # ''Reorganization process completed successfully!'')] \<rparr>)"
  by code_simp
definition dot_file_example :: "unit collaborators" where
  "dot_file_example =
     scripted
       [(''src/*'', listing
           [''  .DS_Store                           A     6148  Fri Jan  1 00:00:00 2021'',
            ''  .thumbnails                         D        0  Fri Jan  1 00:00:00 2021'',
            ''  IMG_0001.jpg                        A    12345  Fri Jan  1 00:00:00 2021'']),
        (''src/.thumbnails/*'', listing
           [''  t1.jpg                              A      100  Fri Jan  1 00:00:00 2021''])]
       [] []"

theorem dot_entries_never_touched_witness:
  "startsWith (trim ''  .DS_Store                           A     6148  Fri Jan  1 00:00:00 2021'') ''.''
   \<and> \<not> keep_line_merge ''  .DS_Store                           A     6148  Fri Jan  1 00:00:00 2021''
   \<and> mergeDirectoryContents 2 (hide_dot_entries dot_file_example) (host False) ''src'' ''tgt'' start
       = mergeDirectoryContents 2 dot_file_example (host False) ''src'' ''tgt'' start
   \<and> mergeDirectoryContents 2 dot_file_example (host False) ''src'' ''tgt'' start =
       (Returned,
        \<lparr> world = (),
          journal =
            [Did (SmbDir ''src/*'') True,
             Did (SmbMkdir ''tgt'') True,
             Did (SmbRename ''src/IMG_0001.jpg'' ''tgt/IMG_0001.jpg'') True,
             Log ''  - Moved file: IMG_0001.jpg''] \<rparr>)"
proof -
  have d: "startsWith (trim ''  .DS_Store                           A     6148  Fri Jan  1 00:00:00 2021'') ''.''"
    by code_simp
  have j: "mergeDirectoryContents 2 dot_file_example (host False) ''src'' ''tgt'' start =
       (Returned,
        \<lparr> world = (),
          journal =
            [Did (SmbDir ''src/*'') True,
             Did (SmbMkdir ''tgt'') True,
             Did (SmbRename ''src/IMG_0001.jpg'' ''tgt/IMG_0001.jpg'') True,
             Log ''  - Moved file: IMG_0001.jpg''] \<rparr>)"
    by code_simp
  from dot_entries_never_touched
         [of "''  .DS_Store                           A     6148  Fri Jan  1 00:00:00 2021''"
             2 dot_file_example "host False" "''src''" "''tgt''" start] d j
  show ?thesis by simp
qed

section \<open>Errors of one file stay with that file\<close>

lemma journal_log: "journal (log msg r) = journal r @ [Log msg]"
  by (simp add: log_def)

lemma smbGetFile_journal:
  "smbGetFile E s t r = (ok, r') \<Longrightarrow> journal r' = journal r @ [Did (SmbGetFile s t) ok]"
  by (auto simp: smbGetFile_def noted_def split: prod.splits)

lemma smbSendFile_journal:
  "smbSendFile E s t r = (ok, r') \<Longrightarrow> journal r' = journal r @ [Did (SmbSendFile s t) ok]"
  by (auto simp: smbSendFile_def noted_def split: prod.splits)

lemma fsReadJson_journal:
  "fsReadJson E p r = (res, r') \<Longrightarrow> journal r' = journal r @ [Did (FsReadJson p) (res \<noteq> None)]"
  by (auto simp: fsReadJson_def noted_def split: prod.splits)

lemma fsUnlink_journal:
  "fsUnlink E p r = (ok, r') \<Longrightarrow> journal r' = journal r @ [Did (FsUnlink p) ok]"
  by (auto simp: fsUnlink_def noted_def split: prod.splits)

lemma exifRead_journal:
  "exifRead E p r = (res, r') \<Longrightarrow> journal r' = journal r @ [Did (ExifRead p) (res \<noteq> None)]"
  by (auto simp: exifRead_def noted_def split: prod.splits)

lemma exifWrite_journal:
  "exifWrite E p d r = (ok, r') \<Longrightarrow> journal r' = journal r @ [Did (ExifWrite p d) ok]"
  by (auto simp: exifWrite_def noted_def split: prod.splits)

lemma rename_with_sidecar_grows:
  "rename_with_sidecar E cfg sourceDir targetDir entryName tempFilePath jsonFileName X r
     = (c, X', r') \<Longrightarrow> prefix (journal r) (journal r')"
  unfolding rename_with_sidecar_def Let_def
  by (auto simp: journal_log
           split: prod.splits bool.splits option.splits sidecar.splits if_splits
           dest!: smbGetFile_journal fsReadJson_journal fsUnlink_journal exifRead_journal
                  exifWrite_journal smbSendFile_journal)

lemma try_block_grows:
  assumes "try_block E cfg sourceDir targetDir fileNames entryName sourcePath tempFilePath X r
     = (c, X', r')"
  shows "prefix (journal r) (journal r')"
proof -
  obtain ok r1 where g: "smbGetFile E sourcePath tempFilePath r = (ok, r1)"
    by (cases "smbGetFile E sourcePath tempFilePath r") auto
  have j1: "journal r1 = journal r @ [Did (SmbGetFile sourcePath tempFilePath) ok]"
    using g by (rule smbGetFile_journal)
  show ?thesis
  proof (cases ok)
    case False
    with assms g have "r' = r1" by (simp add: try_block_def)
    with j1 show ?thesis by simp
  next
    case True
    show ?thesis
    proof (cases "List.find (\<lambda>f. startsWith f entryName \<and> endsWith f ''.json'') fileNames")
      case (Some jsonFileName)
      with assms g True have "rename_with_sidecar E cfg sourceDir targetDir entryName
          tempFilePath jsonFileName X r1 = (c, X', r')"
        by (simp add: try_block_def)
      then have "prefix (journal r1) (journal r')" by (rule rename_with_sidecar_grows)
      with j1 show ?thesis by (auto dest: append_prefixD)
    next
      case None
      let ?r2 = "log (''- No metadata for: '' @ entryName @ '', copying as-is.'') r1"
      let ?tp = "slashes (path_join [targetDir, entryName])"
      have j2: "prefix (journal r) (journal ?r2)" using j1 by (simp add: journal_log)
      obtain ok3 r3 where s: "smbSendFile E tempFilePath ?tp ?r2 = (ok3, r3)"
        by (cases "smbSendFile E tempFilePath ?tp ?r2") auto
      have j3: "prefix (journal r) (journal r3)"
        using smbSendFile_journal [OF s] j1 by (simp add: journal_log)
      from assms g True None s
      have "r' = log (''- Skipping already existing file: '' @ entryName) ?r2
          \<or> r' = log (''  (Dry Run) Would copy '' @ sourcePath @ '' to '' @ ?tp) ?r2
          \<or> r' = r3 \<or> r' = log (''  Copied to '' @ ?tp) r3"
        by (auto simp: try_block_def Let_def split: if_splits bool.splits)
      then show ?thesis
        using j2 j3 by (auto simp: journal_log)
    qed
  qed
qed

text \<open>What one file adds to the journal after its \<^verbatim>\<open>try\<close> block: the error line, if the
  block raised, and the unlink of the staged copy.\<close>

lemma process_file_journal:
  assumes "try_block E cfg sourceDir targetDir fileNames entryName sourcePath
             (path_join [tmpdir cfg, entryName]) X r = (c, X1, r1)"
  shows "\<exists>ok r2. process_file E cfg sourceDir targetDir fileNames entryName sourcePath X r = (X1, r2)
           \<and> journal r2 = journal r1
                 @ (case c of Raised \<Rightarrow> [Log (''- Error processing '' @ entryName @ '':'')]
                    | Normal \<Rightarrow> [])
                 @ [Did (FsUnlink (path_join [tmpdir cfg, entryName])) ok]"
proof -
  let ?tmp = "path_join [tmpdir cfg, entryName]"
  let ?r2 = "case c of Raised \<Rightarrow> log (''- Error processing '' @ entryName @ '':'') r1
             | Normal \<Rightarrow> r1"
  obtain ok r3 where u: "fsUnlink E ?tmp ?r2 = (ok, r3)" by (cases "fsUnlink E ?tmp ?r2") auto
  have "process_file E cfg sourceDir targetDir fileNames entryName sourcePath X r = (X1, r3)"
    using assms u by (simp add: process_file_def Let_def)
  moreover have "journal r3 = journal ?r2 @ [Did (FsUnlink ?tmp) ok]"
    using u by (rule fsUnlink_journal)
  moreover have "journal ?r2 = journal r1
      @ (case c of Raised \<Rightarrow> [Log (''- Error processing '' @ entryName @ '':'')] | Normal \<Rightarrow> [])"
    by (cases c) (simp_all add: journal_log)
  ultimately show ?thesis by auto
qed

lemma process_file_adds_unlink:
  "\<exists>X' r' evs ok.
      process_file E cfg sourceDir targetDir fileNames entryName sourcePath X r = (X', r')
      \<and> journal r' = journal r @ evs @ [Did (FsUnlink (path_join [tmpdir cfg, entryName])) ok]"
proof -
  obtain c X1 r1 where t: "try_block E cfg sourceDir targetDir fileNames entryName sourcePath
             (path_join [tmpdir cfg, entryName]) X r = (c, X1, r1)"
    by (metis prod_cases3)
  from try_block_grows [OF t] obtain evs1 where e1: "journal r1 = journal r @ evs1"
    by (auto simp: prefix_def)
  from process_file_journal [OF t] obtain ok r2 where
    p: "process_file E cfg sourceDir targetDir fileNames entryName sourcePath X r = (X1, r2)"
    and j: "journal r2 = journal r1
                 @ (case c of Raised \<Rightarrow> [Log (''- Error processing '' @ entryName @ '':'')]
                    | Normal \<Rightarrow> [])
                 @ [Did (FsUnlink (path_join [tmpdir cfg, entryName])) ok]"
    by blast
  from j e1 have "journal r2 = journal r
      @ (evs1 @ (case c of Raised \<Rightarrow> [Log (''- Error processing '' @ entryName @ '':'')]
                 | Normal \<Rightarrow> []))
      @ [Did (FsUnlink (path_join [tmpdir cfg, entryName])) ok]"
    by simp
  with p show ?thesis by blast
qed

text \<open>A line the loop passes over without staging anything: a sidecar, or an original
  that has an edited version.\<close>

definition passed_over :: "string list \<Rightarrow> string \<Rightarrow> bool" where
  "passed_over originalsToSkip line \<longleftrightarrow>
     endsWith (toLowerCase (entryName_of line)) ''.json''
     \<or> set_has originalsToSkip (entryName_of line)"

text \<open>
  A batch in which every line that carries the directory marker is one of the two
  entries \<^verbatim>\<open>.\<close> and \<^verbatim>\<open>..\<close>: whatever the collaborators do, the loop reaches the end of
  the batch, and every file that is staged has its staged copy unlinked.
\<close>

lemma rename_loop_files:
  assumes "\<forall>line\<in>set lines. isDirectory_of line \<longrightarrow>
             entryName_of line = ''.'' \<or> entryName_of line = ''..''"
  shows "\<exists>X' r' evs.
      rename_loop rec E cfg sourceDir targetDir fileNames originalsToSkip lines X r
        = (Returned, X', r')
      \<and> journal r' = journal r @ evs
      \<and> (\<forall>line\<in>set lines. \<not> isDirectory_of line \<and> \<not> passed_over originalsToSkip line \<longrightarrow>
            (\<exists>ok. Did (FsUnlink (path_join [tmpdir cfg, entryName_of line])) ok \<in> set evs))"
  using assms
proof (induction lines arbitrary: X r)
  case Nil
  show ?case by simp
next
  case (Cons line rest)
  have rest: "\<forall>l\<in>set rest. isDirectory_of l \<longrightarrow> entryName_of l = ''.'' \<or> entryName_of l = ''..''"
    using Cons.prems by simp
  show ?case
  proof (cases "isDirectory_of line")
    case True
    then have dots: "entryName_of line = ''.'' \<or> entryName_of line = ''..''"
      using Cons.prems by simp
    from Cons.IH [OF rest, of X r] obtain X' r' evs where
      l: "rename_loop rec E cfg sourceDir targetDir fileNames originalsToSkip rest X r
            = (Returned, X', r')"
      and j: "journal r' = journal r @ evs"
      and u: "\<forall>l\<in>set rest. \<not> isDirectory_of l \<and> \<not> passed_over originalsToSkip l \<longrightarrow>
            (\<exists>ok. Did (FsUnlink (path_join [tmpdir cfg, entryName_of l])) ok \<in> set evs)"
      by blast
    have "rename_loop rec E cfg sourceDir targetDir fileNames originalsToSkip (line # rest) X r
            = (Returned, X', r')"
      using True dots l by (simp add: Let_def)
    moreover have "\<forall>l\<in>set (line # rest). \<not> isDirectory_of l \<and> \<not> passed_over originalsToSkip l \<longrightarrow>
            (\<exists>ok. Did (FsUnlink (path_join [tmpdir cfg, entryName_of l])) ok \<in> set evs)"
      using u True by simp
    ultimately show ?thesis using j by blast
  next
    case nd: False
    show ?thesis
    proof (cases "passed_over originalsToSkip line")
      case True
      let ?r1 = "if set_has originalsToSkip (entryName_of line)
                 then log (''- Skipping original with edited version: '' @ entryName_of line) r
                 else log (''- Skipping: '' @ entryName_of line) r"
      obtain ev where j1: "journal ?r1 = journal r @ [ev]"
        by (cases "set_has originalsToSkip (entryName_of line)") (auto simp: journal_log)
      from Cons.IH [OF rest, of X ?r1] obtain X' r' evs where
        l: "rename_loop rec E cfg sourceDir targetDir fileNames originalsToSkip rest X ?r1
              = (Returned, X', r')"
        and j: "journal r' = journal ?r1 @ evs"
        and u: "\<forall>l\<in>set rest. \<not> isDirectory_of l \<and> \<not> passed_over originalsToSkip l \<longrightarrow>
              (\<exists>ok. Did (FsUnlink (path_join [tmpdir cfg, entryName_of l])) ok \<in> set evs)"
        by blast
      have "rename_loop rec E cfg sourceDir targetDir fileNames originalsToSkip (line # rest) X r
              = (Returned, X', r')"
        using nd True l by (simp add: Let_def passed_over_def)
      moreover have "journal r' = journal r @ (ev # evs)" using j j1 by simp
      moreover have "\<forall>l\<in>set (line # rest). \<not> isDirectory_of l \<and> \<not> passed_over originalsToSkip l \<longrightarrow>
              (\<exists>ok. Did (FsUnlink (path_join [tmpdir cfg, entryName_of l])) ok \<in> set (ev # evs))"
        using u True by auto
      ultimately show ?thesis by blast
    next
      case False
      let ?sp = "slashes (path_join [sourceDir, entryName_of line])"
      from process_file_adds_unlink [of E cfg sourceDir targetDir fileNames "entryName_of line" ?sp X r]
      obtain X1 r1 evs1 ok1 where
        p: "process_file E cfg sourceDir targetDir fileNames (entryName_of line) ?sp X r = (X1, r1)"
        and j1: "journal r1 = journal r @ evs1
                   @ [Did (FsUnlink (path_join [tmpdir cfg, entryName_of line])) ok1]"
        by blast
      from Cons.IH [OF rest, of X1 r1] obtain X' r' evs where
        l: "rename_loop rec E cfg sourceDir targetDir fileNames originalsToSkip rest X1 r1
              = (Returned, X', r')"
        and j: "journal r' = journal r1 @ evs"
        and u: "\<forall>l\<in>set rest. \<not> isDirectory_of l \<and> \<not> passed_over originalsToSkip l \<longrightarrow>
              (\<exists>ok. Did (FsUnlink (path_join [tmpdir cfg, entryName_of l])) ok \<in> set evs)"
        by blast
      let ?all = "evs1 @ [Did (FsUnlink (path_join [tmpdir cfg, entryName_of line])) ok1] @ evs"
      have "rename_loop rec E cfg sourceDir targetDir fileNames originalsToSkip (line # rest) X r
              = (Returned, X', r')"
        using nd False p l by (simp add: Let_def passed_over_def)
      moreover have "journal r' = journal r @ ?all" using j j1 by simp
      moreover have "\<forall>l\<in>set (line # rest). \<not> isDirectory_of l \<and> \<not> passed_over originalsToSkip l \<longrightarrow>
              (\<exists>ok. Did (FsUnlink (path_join [tmpdir cfg, entryName_of l])) ok \<in> set ?all)"
        using u by auto
      ultimately show ?thesis by blast
    qed
  qed
qed

text \<open>
  A source directory with a file whose name holds the letter \<^verbatim>\<open>D\<close> between two blanks,
  followed by another file. The share lists the two files with the archive attribute
  \<^verbatim>\<open>A\<close>; a path that is not a directory cannot be listed.
\<close>

definition misread_file_example :: "unit collaborators" where
  "misread_file_example =
     scripted
       [(''src/*'', listing
           [''  Plan D final.jpg                    A    12345  Fri Jan  1 00:00:00 2021'',
            ''  after.jpg                           A    23456  Fri Jan  1 00:00:00 2021'']),
        (''tgt/*'', listing [])]
       []
       [(''/tmp/Plan D final.jpg'', ''jpg''), (''/tmp/after.jpg'', ''jpg'')]"

text \<open>
  Claim C7 on the code. The line of \<^verbatim>\<open>Plan D final.jpg\<close> contains the marker \<^verbatim>\<open> D \<close>, so
  the file is taken for a directory and \<^verbatim>\<open>processDirectory\<close> is called on it, outside
  every \<^verbatim>\<open>try\<close>. The inner call creates a target directory of that name and then asks
  for the listing of \<^verbatim>\<open>src/Plan D final.jpg/*\<close>; the error of that listing is caught
  nowhere, so it ends the inner call, the loop and the outer call: nothing is logged for
  the file, and \<^verbatim>\<open>after.jpg\<close> is never fetched.
\<close>

theorem misread_file_aborts_the_batch:
  "processDirectory 2 misread_file_example (host False) ''src'' ''tgt'' start =
     (Thrown,
      \<lparr> world = (),
        journal =
          [Log (CHR 0x0A # ''Processing source: src''),
           Log ''Writing to target: tgt'',
           Did (SmbDir ''tgt/*'') True,
           Did (SmbDir ''src/*'') True,
           Log (CHR 0x0A # ''Processing source: src/Plan D final.jpg''),
           Log ''Writing to target: tgt/Plan D final.jpg'',
           Did (SmbDir ''tgt/Plan D final.jpg/*'') False,
           Log ''- Target directory tgt/Plan D final.jpg is new or empty. Ensuring it exists.'',
           Did (SmbMkdir ''tgt/Plan D final.jpg'') True,
           Did (SmbDir ''src/Plan D final.jpg/*'') False] \<rparr>)"
  by code_simp

section \<open>A file with a usable sidecar\<close>


section \<open>Capture time in the name and in the tag\<close>








section \<open>The extension of the final name\<close>












end
